theory Spec2Isabelle
  imports Main "HOL-Library.Word"
begin

section \<open>Solidity values, errors and the outside world\<close>

text \<open>
  The contracts are compiled with Solidity 0.8: \<open>uint256\<close> arithmetic is checked, and an
  overflow or underflow aborts the whole transaction with a panic. An aborted transaction
  leaves no trace on the contract storage, so every entry point is a function from the
  storage before the call to either an error (\<open>Inl\<close>) or the storage after the call
  together with what the call did to the outside world (\<open>Inr\<close>).
\<close>

type_synonym uint256 = "256 word"
type_synonym address = "160 word"

datatype error =
    Require string
  | Panic
  | CallReverted

text \<open>A call succeeds when it is not rolled back; \<open>isl\<close> says that it fails.\<close>

definition succeeds :: "error + 'a \<Rightarrow> bool" where
  "succeeds r = (case r of Inl err \<Rightarrow> False | Inr x \<Rightarrow> True)"

definition checked_add :: "uint256 \<Rightarrow> uint256 \<Rightarrow> error + uint256" where
  "checked_add a b = (if unat a + unat b < 2 ^ 256 then Inr (a + b) else Inl Panic)"

definition checked_sub :: "uint256 \<Rightarrow> uint256 \<Rightarrow> error + uint256" where
  "checked_sub a b = (if unat b \<le> unat a then Inr (a - b) else Inl Panic)"

definition checked_mul :: "uint256 \<Rightarrow> uint256 \<Rightarrow> error + uint256" where
  "checked_mul a b = (if unat a * unat b < 2 ^ 256 then Inr (a * b) else Inl Panic)"

text \<open>
  A call leaves the contract in three places: a plain value transfer
  \<open>_to.call{value: _amount}("")\<close>, and the token calls \<open>transfer\<close> and \<open>transferFrom\<close> of the
  \<open>IERC20\<close> interface. The callee is not part of the contracts. Its answer is an input of
  the model: it reverts, or it returns a boolean. For the token calls the boolean is the
  token's own report of whether the transfer took place; the contracts never look at it.
  For the value transfer \<open>Reverted\<close> is \<open>success = false\<close>.
\<close>

datatype ext_result = Reverted | Returned bool

text \<open>
  \<open>msg.sender\<close> and \<open>block.timestamp\<close>. \<open>msg.value\<close> is an argument of the payable
  entry points only: a call that sends value to a function that is not payable is turned
  away before the function is entered, and is not a call of the model.
  Each entry point is modelled as a top-level transaction, for which the \<open>nonReentrant\<close>
  modifier always lets the call through; a callee is taken to answer without calling back
  into the contract.
\<close>

record env =
  msg_sender :: address
  block_timestamp :: uint256

definition checked_div :: "uint256 \<Rightarrow> uint256 \<Rightarrow> error + uint256" where
  "checked_div a b = (if b = 0 then Inl Panic else Inr (a div b))"

section \<open>FreelanceEscrow\<close>

datatype EscrowStatus =
    Created
  | Funded
  | WorkSubmitted
  | Completed
  | Disputed
  | Cancelled
  | Refunded

record EscrowContract =
  id' :: uint256
  client :: address
  freelancer :: address
  mediator :: address
  amount :: uint256
  token :: address
  status :: EscrowStatus
  deadline :: uint256
  workDescription :: string
  deliveryHash :: string
  createdAt :: uint256
  lastUpdated :: uint256
  clientApproved :: bool
  freelancerSubmitted :: bool

text \<open>The value every slot of the \<open>escrows\<close> mapping holds before it is written.\<close>

definition zero_escrow :: EscrowContract where
  "zero_escrow = \<lparr> id' = 0, client = 0, freelancer = 0, mediator = 0, amount = 0,
     token = 0, status = Created, deadline = 0, workDescription = [], deliveryHash = [],
     createdAt = 0, lastUpdated = 0, clientApproved = False, freelancerSubmitted = False \<rparr>"

text \<open>The events of both contracts.\<close>

datatype event =
    EscrowCreated uint256 address address uint256 address
  | EscrowFunded uint256 uint256
  | WorkSubmittedEv uint256 string
  | WorkApproved uint256
  | DisputeRaised uint256 address
  | DisputeResolved uint256 address uint256 uint256
  | EscrowCompleted uint256 uint256 uint256
  | EscrowCancelled uint256
  | PoolCreated uint256 address string uint256 uint256
  | MemberJoined uint256 address
  | MemberLeft uint256 address
  | PaymentCollected uint256 address uint256
  | PayoutCompleted uint256 uint256 uint256
  | PaymentFailed uint256 address
  | MemberRemoved uint256 address string

text \<open>
  What a call does outside the storage, in the order of the source:
  \<open>SendValue to amount\<close> is \<open>to.call{value: amount}("")\<close>,
  \<open>TokenTransfer token to amount\<close> is \<open>IERC20(token).transfer(to, amount)\<close>,
  \<open>TokenTransferFrom token from amount\<close> is
  \<open>IERC20(token).transferFrom(from, address(this), amount)\<close>.
\<close>

datatype effect =
    SendValue address uint256
  | TokenTransfer address address uint256
  | TokenTransferFrom address address uint256
  | Emit event

record state =
  escrows :: "uint256 \<Rightarrow> EscrowContract"
  clientEscrows :: "address \<Rightarrow> uint256 list"
  freelancerEscrows :: "address \<Rightarrow> uint256 list"
  nextEscrowId :: uint256
  platformFee :: uint256
  feeRecipient :: address
  approvedMediators :: "address \<Rightarrow> bool"
  owner :: address

text \<open>The constructor, with the initial values of the state variables.\<close>

definition constructor :: "env \<Rightarrow> address \<Rightarrow> state" where
  "constructor e feeRecipient' =
     \<lparr> escrows = (\<lambda>_. zero_escrow),
       clientEscrows = (\<lambda>_. []),
       freelancerEscrows = (\<lambda>_. []),
       nextEscrowId = 1,
       platformFee = 250,
       feeRecipient = feeRecipient',
       approvedMediators = (\<lambda>_. False),
       owner = msg_sender e \<rparr>"

subsection \<open>Modifiers\<close>

definition onlyParties :: "env \<Rightarrow> state \<Rightarrow> uint256 \<Rightarrow> bool" where
  "onlyParties e s escrowId' =
     (msg_sender e = client (escrows s escrowId') \<or>
      msg_sender e = freelancer (escrows s escrowId'))"

definition onlyClient :: "env \<Rightarrow> state \<Rightarrow> uint256 \<Rightarrow> bool" where
  "onlyClient e s escrowId' = (client (escrows s escrowId') = msg_sender e)"

definition onlyFreelancer :: "env \<Rightarrow> state \<Rightarrow> uint256 \<Rightarrow> bool" where
  "onlyFreelancer e s escrowId' = (freelancer (escrows s escrowId') = msg_sender e)"

definition onlyMediator :: "env \<Rightarrow> state \<Rightarrow> uint256 \<Rightarrow> bool" where
  "onlyMediator e s escrowId' = (mediator (escrows s escrowId') = msg_sender e)"

definition validEscrow :: "state \<Rightarrow> uint256 \<Rightarrow> bool" where
  "validEscrow s escrowId' = (escrowId' < nextEscrowId s)"

definition onlyOwner :: "env \<Rightarrow> state \<Rightarrow> bool" where
  "onlyOwner e s = (owner s = msg_sender e)"

subsection \<open>Moving funds\<close>

definition transferFunds :: "address \<Rightarrow> uint256 \<Rightarrow> address \<Rightarrow> ext_result \<Rightarrow> error + effect list" where
  "transferFunds to' amount' token' r =
     (if token' = 0 then
        (case r of
           Reverted \<Rightarrow> Inl (Require ''ETH transfer failed'')
         | Returned _ \<Rightarrow> Inr [SendValue to' amount'])
      else
        (case r of
           Reverted \<Rightarrow> Inl CallReverted
         | Returned _ \<Rightarrow> Inr [TokenTransfer token' to' amount']))"

definition releasePayment :: "state \<Rightarrow> uint256 \<Rightarrow> ext_result \<Rightarrow> ext_result \<Rightarrow> error + effect list" where
  "releasePayment s escrowId' r1 r2 =
     (let escrow = escrows s escrowId' in
      case checked_mul (amount escrow) (platformFee s) of
        Inl err \<Rightarrow> Inl err
      | Inr product \<Rightarrow>
          (let fee = product div 10000 in
           case checked_sub (amount escrow) fee of
             Inl err \<Rightarrow> Inl err
           | Inr freelancerPayout \<Rightarrow>
               (case transferFunds (freelancer escrow) freelancerPayout (token escrow) r1 of
                  Inl err \<Rightarrow> Inl err
                | Inr fx1 \<Rightarrow>
                    (case transferFunds (feeRecipient s) fee (token escrow) r2 of
                       Inl err \<Rightarrow> Inl err
                     | Inr fx2 \<Rightarrow>
                         Inr (fx1 @ fx2 @ [Emit (EscrowCompleted escrowId' freelancerPayout fee)])))))"

subsection \<open>Entry points\<close>

definition createEscrow ::
  "env \<Rightarrow> state \<Rightarrow> address \<Rightarrow> address \<Rightarrow> uint256 \<Rightarrow> address \<Rightarrow> uint256 \<Rightarrow> string
     \<Rightarrow> error + (uint256 \<times> state \<times> effect list)" where
  "createEscrow e s freelancer' mediator' amount' token' deadline' workDescription' =
     (if \<not> (freelancer' \<noteq> 0) then Inl (Require ''Invalid freelancer address'')
      else if \<not> (amount' > 0) then Inl (Require ''Amount must be greater than 0'')
      else if \<not> (deadline' > block_timestamp e) then Inl (Require ''Deadline must be in the future'')
      else if \<not> (approvedMediators s mediator' \<or> mediator' = owner s) then Inl (Require ''Invalid mediator'')
      else
        (let escrowId = nextEscrowId s in
         case checked_add (nextEscrowId s) 1 of
           Inl err \<Rightarrow> Inl err
         | Inr nextId \<Rightarrow>
             (let newEscrow = (escrows s escrowId)
                    \<lparr> id' := escrowId,
                      client := msg_sender e,
                      freelancer := freelancer',
                      mediator := mediator',
                      amount := amount',
                      token := token',
                      status := Created,
                      deadline := deadline',
                      workDescription := workDescription',
                      createdAt := block_timestamp e,
                      lastUpdated := block_timestamp e \<rparr>
              in Inr (escrowId,
                      s \<lparr> nextEscrowId := nextId,
                          escrows := (escrows s)(escrowId := newEscrow),
                          clientEscrows := (clientEscrows s)
                            (msg_sender e := clientEscrows s (msg_sender e) @ [escrowId]),
                          freelancerEscrows := (freelancerEscrows s)
                            (freelancer' := freelancerEscrows s freelancer' @ [escrowId]) \<rparr>,
                      [Emit (EscrowCreated escrowId (msg_sender e) freelancer' amount' token')]))))"

text \<open>
  \<open>fundEscrow\<close> is payable: \<open>msg_value\<close> is its \<open>msg.value\<close>, and \<open>r\<close> is the answer of
  the token to \<open>transferFrom\<close> (read on the token branch only).
\<close>

definition fundEscrow :: "env \<Rightarrow> uint256 \<Rightarrow> state \<Rightarrow> uint256 \<Rightarrow> ext_result \<Rightarrow> error + (state \<times> effect list)" where
  "fundEscrow e msg_value s escrowId' r =
     (if \<not> validEscrow s escrowId' then Inl (Require ''Escrow does not exist'')
      else if \<not> onlyClient e s escrowId' then Inl (Require ''Only client can call this'')
      else
        (let escrow = escrows s escrowId' in
         if \<not> (status escrow = Created) then Inl (Require ''Escrow already funded or completed'')
         else
           (case (if token escrow = 0 then
                    (if \<not> (msg_value = amount escrow) then Inl (Require ''Incorrect ETH amount'')
                     else Inr [])
                  else
                    (if \<not> (msg_value = 0) then Inl (Require ''Do not send ETH for token payments'')
                     else (case r of
                             Reverted \<Rightarrow> Inl CallReverted
                           | Returned _ \<Rightarrow>
                               Inr [TokenTransferFrom (token escrow) (msg_sender e) (amount escrow)])))
            of
              Inl err \<Rightarrow> Inl err
            | Inr fx \<Rightarrow>
                Inr (s \<lparr> escrows := (escrows s)
                           (escrowId' := escrow \<lparr> status := Funded, lastUpdated := block_timestamp e \<rparr>) \<rparr>,
                     fx @ [Emit (EscrowFunded escrowId' (amount escrow))]))))"

definition submitWork :: "env \<Rightarrow> state \<Rightarrow> uint256 \<Rightarrow> string \<Rightarrow> error + (state \<times> effect list)" where
  "submitWork e s escrowId' deliveryHash' =
     (if \<not> validEscrow s escrowId' then Inl (Require ''Escrow does not exist'')
      else if \<not> onlyFreelancer e s escrowId' then Inl (Require ''Only freelancer can call this'')
      else
        (let escrow = escrows s escrowId' in
         if \<not> (status escrow = Funded) then Inl (Require ''Escrow not funded'')
         else if \<not> (block_timestamp e \<le> deadline escrow) then Inl (Require ''Deadline passed'')
         else if \<not> (length deliveryHash' > 0) then Inl (Require ''Delivery hash required'')
         else
           Inr (s \<lparr> escrows := (escrows s)
                      (escrowId' := escrow \<lparr> deliveryHash := deliveryHash',
                                             freelancerSubmitted := True,
                                             status := WorkSubmitted,
                                             lastUpdated := block_timestamp e \<rparr>) \<rparr>,
                [Emit (WorkSubmittedEv escrowId' deliveryHash')])))"

definition approveWork :: "env \<Rightarrow> state \<Rightarrow> uint256 \<Rightarrow> ext_result \<Rightarrow> ext_result \<Rightarrow> error + (state \<times> effect list)" where
  "approveWork e s escrowId' r1 r2 =
     (if \<not> validEscrow s escrowId' then Inl (Require ''Escrow does not exist'')
      else if \<not> onlyClient e s escrowId' then Inl (Require ''Only client can call this'')
      else
        (let escrow = escrows s escrowId' in
         if \<not> (status escrow = WorkSubmitted) then Inl (Require ''Work not submitted'')
         else
           (let s' = s \<lparr> escrows := (escrows s)
                           (escrowId' := escrow \<lparr> clientApproved := True,
                                                  status := Completed,
                                                  lastUpdated := block_timestamp e \<rparr>) \<rparr>
            in case releasePayment s' escrowId' r1 r2 of
                 Inl err \<Rightarrow> Inl err
               | Inr fx \<Rightarrow> Inr (s', fx @ [Emit (WorkApproved escrowId')]))))"

definition raiseDispute :: "env \<Rightarrow> state \<Rightarrow> uint256 \<Rightarrow> error + (state \<times> effect list)" where
  "raiseDispute e s escrowId' =
     (if \<not> validEscrow s escrowId' then Inl (Require ''Escrow does not exist'')
      else if \<not> onlyParties e s escrowId' then Inl (Require ''Only client or freelancer can call this'')
      else
        (let escrow = escrows s escrowId' in
         if \<not> (status escrow = Funded \<or> status escrow = WorkSubmitted)
         then Inl (Require ''Cannot dispute at this stage'')
         else
           Inr (s \<lparr> escrows := (escrows s)
                      (escrowId' := escrow \<lparr> status := Disputed, lastUpdated := block_timestamp e \<rparr>) \<rparr>,
                [Emit (DisputeRaised escrowId' (msg_sender e))])))"

text \<open>
  \<open>r1\<close> answers the transfer to the freelancer and \<open>r2\<close> the transfer to the client; each
  is read only when its transfer is made.
\<close>

definition resolveDispute ::
  "env \<Rightarrow> state \<Rightarrow> uint256 \<Rightarrow> uint256 \<Rightarrow> uint256 \<Rightarrow> ext_result \<Rightarrow> ext_result
     \<Rightarrow> error + (state \<times> effect list)" where
  "resolveDispute e s escrowId' clientAmount' freelancerAmount' r1 r2 =
     (if \<not> validEscrow s escrowId' then Inl (Require ''Escrow does not exist'')
      else if \<not> onlyMediator e s escrowId' then Inl (Require ''Only assigned mediator can call this'')
      else
        (let escrow = escrows s escrowId' in
         if \<not> (status escrow = Disputed) then Inl (Require ''Escrow not disputed'')
         else
           (case checked_add clientAmount' freelancerAmount' of
              Inl err \<Rightarrow> Inl err
            | Inr both \<Rightarrow>
                if \<not> (both = amount escrow) then Inl (Require ''Amounts must sum to total'')
                else
                  (let s' = s \<lparr> escrows := (escrows s)
                                  (escrowId' := escrow \<lparr> status := Completed,
                                                         lastUpdated := block_timestamp e \<rparr>) \<rparr>
                   in case (if freelancerAmount' > 0
                            then transferFunds (freelancer escrow) freelancerAmount' (token escrow) r1
                            else Inr []) of
                        Inl err \<Rightarrow> Inl err
                      | Inr fx1 \<Rightarrow>
                          (case (if clientAmount' > 0
                                 then transferFunds (client escrow) clientAmount' (token escrow) r2
                                 else Inr []) of
                             Inl err \<Rightarrow> Inl err
                           | Inr fx2 \<Rightarrow>
                               (let winner = (if freelancerAmount' > clientAmount'
                                              then freelancer escrow else client escrow)
                                in Inr (s', fx1 @ fx2 @
                                        [Emit (DisputeResolved escrowId' winner
                                                 clientAmount' freelancerAmount')])))))))"

definition cancelEscrow :: "env \<Rightarrow> state \<Rightarrow> uint256 \<Rightarrow> error + (state \<times> effect list)" where
  "cancelEscrow e s escrowId' =
     (if \<not> validEscrow s escrowId' then Inl (Require ''Escrow does not exist'')
      else if \<not> onlyClient e s escrowId' then Inl (Require ''Only client can call this'')
      else
        (let escrow = escrows s escrowId' in
         if \<not> (status escrow = Created) then Inl (Require ''Cannot cancel funded escrow'')
         else
           Inr (s \<lparr> escrows := (escrows s)
                      (escrowId' := escrow \<lparr> status := Cancelled, lastUpdated := block_timestamp e \<rparr>) \<rparr>,
                [Emit (EscrowCancelled escrowId')])))"

subsection \<open>Admin functions\<close>

definition addMediator :: "env \<Rightarrow> state \<Rightarrow> address \<Rightarrow> error + (state \<times> effect list)" where
  "addMediator e s mediator' =
     (if \<not> onlyOwner e s then Inl (Require ''OwnableUnauthorizedAccount'')
      else Inr (s \<lparr> approvedMediators := (approvedMediators s)(mediator' := True) \<rparr>, []))"

definition removeMediator :: "env \<Rightarrow> state \<Rightarrow> address \<Rightarrow> error + (state \<times> effect list)" where
  "removeMediator e s mediator' =
     (if \<not> onlyOwner e s then Inl (Require ''OwnableUnauthorizedAccount'')
      else Inr (s \<lparr> approvedMediators := (approvedMediators s)(mediator' := False) \<rparr>, []))"

definition setPlatformFee :: "env \<Rightarrow> state \<Rightarrow> uint256 \<Rightarrow> error + (state \<times> effect list)" where
  "setPlatformFee e s fee' =
     (if \<not> onlyOwner e s then Inl (Require ''OwnableUnauthorizedAccount'')
      else if \<not> (fee' \<le> 1000) then Inl (Require ''Fee cannot exceed 10%'')
      else Inr (s \<lparr> platformFee := fee' \<rparr>, []))"

definition setFeeRecipient :: "env \<Rightarrow> state \<Rightarrow> address \<Rightarrow> error + (state \<times> effect list)" where
  "setFeeRecipient e s feeRecipient' =
     (if \<not> onlyOwner e s then Inl (Require ''OwnableUnauthorizedAccount'')
      else if \<not> (feeRecipient' \<noteq> 0) then Inl (Require ''Invalid fee recipient'')
      else Inr (s \<lparr> feeRecipient := feeRecipient' \<rparr>, []))"

subsection \<open>Transactions and reachable states\<close>

text \<open>
  A transaction is a call of one external function with its arguments (and, where the
  function calls out, the answers it gets). \<open>exec\<close> dispatches it. A transaction that
  fails leaves the storage as it was: \<open>apply_call\<close> is the storage after the transaction,
  and \<open>replay\<close> runs a list of transactions from a given storage.
\<close>

datatype call =
    CreateEscrow address address uint256 address uint256 string
  | FundEscrow uint256 uint256 ext_result
  | SubmitWork uint256 string
  | ApproveWork uint256 ext_result ext_result
  | RaiseDispute uint256
  | ResolveDispute uint256 uint256 uint256 ext_result ext_result
  | CancelEscrow uint256
  | AddMediator address
  | RemoveMediator address
  | SetPlatformFee uint256
  | SetFeeRecipient address

fun exec :: "env \<Rightarrow> state \<Rightarrow> call \<Rightarrow> error + (state \<times> effect list)" where
  "exec e s (CreateEscrow f m a t d w) =
     (case createEscrow e s f m a t d w of
        Inl err \<Rightarrow> Inl err
      | Inr (escrowId, s', fx) \<Rightarrow> Inr (s', fx))"
| "exec e s (FundEscrow i v r) = fundEscrow e v s i r"
| "exec e s (SubmitWork i h) = submitWork e s i h"
| "exec e s (ApproveWork i r1 r2) = approveWork e s i r1 r2"
| "exec e s (RaiseDispute i) = raiseDispute e s i"
| "exec e s (ResolveDispute i a b r1 r2) = resolveDispute e s i a b r1 r2"
| "exec e s (CancelEscrow i) = cancelEscrow e s i"
| "exec e s (AddMediator m) = addMediator e s m"
| "exec e s (RemoveMediator m) = removeMediator e s m"
| "exec e s (SetPlatformFee f) = setPlatformFee e s f"
| "exec e s (SetFeeRecipient f) = setFeeRecipient e s f"

definition apply_call :: "state \<Rightarrow> env \<times> call \<Rightarrow> state" where
  "apply_call s ec = (case exec (fst ec) s (snd ec) of Inl err \<Rightarrow> s | Inr (s', fx) \<Rightarrow> s')"

definition replay :: "state \<Rightarrow> (env \<times> call) list \<Rightarrow> state" where
  "replay s ecs = foldl apply_call s ecs"

text \<open>
  The storages the contract can be in: the one the constructor leaves, and every storage a
  successful transaction leaves from one of them. No transaction is sent by the zero
  address.
\<close>

inductive reachable :: "state \<Rightarrow> bool" where
  reachable_init: "reachable (constructor e f)"
| reachable_step: "reachable s \<Longrightarrow> msg_sender e \<noteq> 0 \<Longrightarrow> exec e s c = Inr (s', fx) \<Longrightarrow> reachable s'"

text \<open>The transfer \<open>transferFunds\<close> makes when the callee does not revert.\<close>

definition transfer_of :: "address \<Rightarrow> address \<Rightarrow> uint256 \<Rightarrow> effect" where
  "transfer_of token' to' amount' =
     (if token' = 0 then SendValue to' amount' else TokenTransfer token' to' amount')"

definition terminal :: "EscrowStatus \<Rightarrow> bool" where
  "terminal st = (st = Completed \<or> st = Cancelled \<or> st = Refunded)"

lemmas modifier_defs = validEscrow_def onlyClient_def onlyFreelancer_def onlyMediator_def
  onlyParties_def onlyOwner_def

lemmas entry_defs = createEscrow_def fundEscrow_def submitWork_def approveWork_def
  raiseDispute_def resolveDispute_def cancelEscrow_def addMediator_def removeMediator_def
  setPlatformFee_def setFeeRecipient_def

section \<open>SubscriptionPool\<close>

text \<open>
  The part of the pool contract that bills the members: creating a pool, joining, leaving,
  the periodic collection and the removal routine they share.
\<close>

datatype PoolStatus = Active | Paused | PoolCancelled

record Member =
  isActive :: bool
  joinedAt :: uint256
  lastPayment :: uint256
  failedPaymentCount :: uint256
  totalPaid :: uint256

record Pool =
  pool_id :: uint256
  pool_owner :: address
  serviceName :: string
  monthlyAmount :: uint256
  pool_token :: address
  maxMembers :: uint256
  currentMembers :: uint256
  pool_status :: PoolStatus
  nextPaymentDue :: uint256
  pool_createdAt :: uint256
  members :: "address \<Rightarrow> Member"
  memberList :: "address list"
  failedPayments :: uint256

definition zero_member :: Member where
  "zero_member = \<lparr> isActive = False, joinedAt = 0, lastPayment = 0, failedPaymentCount = 0,
     totalPaid = 0 \<rparr>"

definition zero_pool :: Pool where
  "zero_pool = \<lparr> pool_id = 0, pool_owner = 0, serviceName = [], monthlyAmount = 0,
     pool_token = 0, maxMembers = 0, currentMembers = 0, pool_status = Active,
     nextPaymentDue = 0, pool_createdAt = 0, members = (\<lambda>_. zero_member), memberList = [],
     failedPayments = 0 \<rparr>"

record pool_state =
  pools :: "uint256 \<Rightarrow> Pool"
  ownerPools :: "address \<Rightarrow> uint256 list"
  memberPools :: "address \<Rightarrow> uint256 list"
  nextPoolId :: uint256
  pool_platformFee :: uint256
  pool_feeRecipient :: address
  pool_contract_owner :: address

definition MAX_FAILED_PAYMENTS :: uint256 where
  "MAX_FAILED_PAYMENTS = 2"

definition thirty_days :: uint256 where
  "thirty_days = 2592000"

definition pool_constructor :: "env \<Rightarrow> address \<Rightarrow> pool_state" where
  "pool_constructor e feeRecipient' =
     \<lparr> pools = (\<lambda>_. zero_pool),
       ownerPools = (\<lambda>_. []),
       memberPools = (\<lambda>_. []),
       nextPoolId = 1,
       pool_platformFee = 200,
       pool_feeRecipient = feeRecipient',
       pool_contract_owner = msg_sender e \<rparr>"

definition validPool :: "pool_state \<Rightarrow> uint256 \<Rightarrow> bool" where
  "validPool s poolId' = (poolId' < nextPoolId s)"

definition poolActive :: "pool_state \<Rightarrow> uint256 \<Rightarrow> bool" where
  "poolActive s poolId' = (pool_status (pools s poolId') = Active)"

definition createPool ::
  "env \<Rightarrow> pool_state \<Rightarrow> string \<Rightarrow> uint256 \<Rightarrow> address \<Rightarrow> uint256
     \<Rightarrow> error + (uint256 \<times> pool_state \<times> effect list)" where
  "createPool e s serviceName' monthlyAmount' token' maxMembers' =
     (if \<not> (length serviceName' > 0) then Inl (Require ''Service name required'')
      else if \<not> (monthlyAmount' > 0) then Inl (Require ''Monthly amount must be greater than 0'')
      else if \<not> (maxMembers' \<ge> 2 \<and> maxMembers' \<le> 20)
        then Inl (Require ''Max members must be between 2-20'')
      else
        (let poolId = nextPoolId s in
         case checked_add (nextPoolId s) 1 of
           Inl err \<Rightarrow> Inl err
         | Inr nextId \<Rightarrow>
             (case checked_add (block_timestamp e) thirty_days of
                Inl err \<Rightarrow> Inl err
              | Inr due \<Rightarrow>
                  (let newPool = (pools s poolId)
                         \<lparr> pool_id := poolId,
                           pool_owner := msg_sender e,
                           serviceName := serviceName',
                           monthlyAmount := monthlyAmount',
                           pool_token := token',
                           maxMembers := maxMembers',
                           currentMembers := 0,
                           pool_status := Active,
                           nextPaymentDue := due,
                           pool_createdAt := block_timestamp e \<rparr>
                   in Inr (poolId,
                           s \<lparr> nextPoolId := nextId,
                               pools := (pools s)(poolId := newPool),
                               ownerPools := (ownerPools s)
                                 (msg_sender e := ownerPools s (msg_sender e) @ [poolId]) \<rparr>,
                           [Emit (PoolCreated poolId (msg_sender e) serviceName'
                                    monthlyAmount' maxMembers')])))))"

text \<open>
  The loop that deletes one entry of a storage array: the first entry equal to \<open>x\<close> is
  overwritten with the last entry and the array is popped.
\<close>

function removeFromList :: "'a \<Rightarrow> nat \<Rightarrow> 'a list \<Rightarrow> 'a list" where
  "removeFromList x i xs =
     (if i < length xs then
        (if xs ! i = x then butlast (xs[i := last xs])
         else removeFromList x (Suc i) xs)
      else xs)"
  by pat_completeness auto
termination
  by (relation "measure (\<lambda>(x, i, xs). length xs - i)") auto

declare removeFromList.simps [simp del]

definition removeMember ::
  "pool_state \<Rightarrow> uint256 \<Rightarrow> address \<Rightarrow> string \<Rightarrow> error + (pool_state \<times> effect list)" where
  "removeMember s poolId' member' reason' =
     (let pool = pools s poolId' in
      case checked_sub (currentMembers pool) 1 of
        Inl err \<Rightarrow> Inl err
      | Inr remaining \<Rightarrow>
          Inr (s \<lparr> pools := (pools s)
                     (poolId' := pool
                        \<lparr> members := (members pool)
                             (member' := (members pool member') \<lparr> isActive := False \<rparr>),
                          currentMembers := remaining,
                          memberList := removeFromList member' 0 (memberList pool) \<rparr>),
                   memberPools := (memberPools s)
                     (member' := removeFromList poolId' 0 (memberPools s member')) \<rparr>,
               [Emit (MemberRemoved poolId' member' reason'), Emit (MemberLeft poolId' member')]))"

text \<open>
  \<open>processPayout\<close>: \<open>r1\<close> answers the payment to the pool owner, \<open>r2\<close> the payment to the
  fee recipient.
\<close>

definition processPayout ::
  "pool_state \<Rightarrow> uint256 \<Rightarrow> uint256 \<Rightarrow> ext_result \<Rightarrow> ext_result \<Rightarrow> error + effect list" where
  "processPayout s poolId' amount' r1 r2 =
     (let pool = pools s poolId' in
      case checked_mul amount' (pool_platformFee s) of
        Inl err \<Rightarrow> Inl err
      | Inr product \<Rightarrow>
          (let fee = product div 10000 in
           case checked_sub amount' fee of
             Inl err \<Rightarrow> Inl err
           | Inr ownerPayout \<Rightarrow>
               (if pool_token pool = 0 then
                  (case r1 of
                     Reverted \<Rightarrow> Inl (Require ''Owner payout failed'')
                   | Returned _ \<Rightarrow>
                       (case r2 of
                          Reverted \<Rightarrow> Inl (Require ''Fee payout failed'')
                        | Returned _ \<Rightarrow>
                            Inr [SendValue (pool_owner pool) ownerPayout,
                                 SendValue (pool_feeRecipient s) fee,
                                 Emit (PayoutCompleted poolId' ownerPayout fee)]))
                else
                  (case r1 of
                     Reverted \<Rightarrow> Inl CallReverted
                   | Returned _ \<Rightarrow>
                       (case r2 of
                          Reverted \<Rightarrow> Inl CallReverted
                        | Returned _ \<Rightarrow>
                            Inr [TokenTransfer (pool_token pool) (pool_owner pool) ownerPayout,
                                 TokenTransfer (pool_token pool) (pool_feeRecipient s) fee,
                                 Emit (PayoutCompleted poolId' ownerPayout fee)])))))"

text \<open>
  \<open>checkAndProcessPayout\<close>: \<open>balance\<close> is what the contract reads as its own balance,
  \<open>address(this).balance\<close> or the token's \<open>balanceOf(address(this))\<close>; \<open>None\<close> is a
  \<open>balanceOf\<close> that reverts.
\<close>

definition checkAndProcessPayout ::
  "pool_state \<Rightarrow> uint256 \<Rightarrow> uint256 option \<Rightarrow> ext_result \<Rightarrow> ext_result \<Rightarrow> error + effect list" where
  "checkAndProcessPayout s poolId' balance r1 r2 =
     (let pool = pools s poolId' in
      case checked_div (monthlyAmount pool) (maxMembers pool) of
        Inl err \<Rightarrow> Inl err
      | Inr memberShare \<Rightarrow>
          (case checked_mul memberShare (currentMembers pool) of
             Inl err \<Rightarrow> Inl err
           | Inr expectedTotal \<Rightarrow>
               (case balance of
                  None \<Rightarrow> Inl CallReverted
                | Some bal \<Rightarrow>
                    if bal \<ge> expectedTotal then processPayout s poolId' expectedTotal r1 r2
                    else Inr [])))"

text \<open>
  \<open>joinPool\<close> is payable. \<open>r\<close> answers \<open>transferFrom\<close>; \<open>balance\<close>, \<open>r1\<close> and \<open>r2\<close> are
  passed on to the payout check.
\<close>

definition joinPool ::
  "env \<Rightarrow> uint256 \<Rightarrow> pool_state \<Rightarrow> uint256 \<Rightarrow> ext_result \<Rightarrow> uint256 option \<Rightarrow> ext_result
     \<Rightarrow> ext_result \<Rightarrow> error + (pool_state \<times> effect list)" where
  "joinPool e msg_value s poolId' r balance r1 r2 =
     (if \<not> validPool s poolId' then Inl (Require ''Pool does not exist'')
      else if \<not> poolActive s poolId' then Inl (Require ''Pool not active'')
      else
        (let pool = pools s poolId' in
         if \<not> (currentMembers pool < maxMembers pool) then Inl (Require ''Pool is full'')
         else if \<not> (\<not> isActive (members pool (msg_sender e))) then Inl (Require ''Already a member'')
         else if \<not> (msg_sender e \<noteq> pool_owner pool)
           then Inl (Require ''Owner cannot join their own pool'')
         else
           (case checked_div (monthlyAmount pool) (maxMembers pool) of
              Inl err \<Rightarrow> Inl err
            | Inr memberShare \<Rightarrow>
                (case (if pool_token pool = 0 then
                         (if \<not> (msg_value = memberShare) then Inl (Require ''Incorrect ETH amount'')
                          else Inr [])
                       else
                         (if \<not> (msg_value = 0)
                          then Inl (Require ''Do not send ETH for token payments'')
                          else (case r of
                                  Reverted \<Rightarrow> Inl CallReverted
                                | Returned _ \<Rightarrow>
                                    Inr [TokenTransferFrom (pool_token pool) (msg_sender e)
                                           memberShare])))
                 of
                   Inl err \<Rightarrow> Inl err
                 | Inr fx \<Rightarrow>
                     (case checked_add (currentMembers pool) 1 of
                        Inl err \<Rightarrow> Inl err
                      | Inr joined \<Rightarrow>
                          (let s' = s \<lparr> pools := (pools s)
                                         (poolId' := pool
                                            \<lparr> members := (members pool)
                                                 (msg_sender e :=
                                                    \<lparr> isActive = True,
                                                      joinedAt = block_timestamp e,
                                                      lastPayment = block_timestamp e,
                                                      failedPaymentCount = 0,
                                                      totalPaid = memberShare \<rparr>),
                                              memberList := memberList pool @ [msg_sender e],
                                              currentMembers := joined \<rparr>),
                                       memberPools := (memberPools s)
                                         (msg_sender e := memberPools s (msg_sender e) @ [poolId']) \<rparr>
                           in case checkAndProcessPayout s' poolId' balance r1 r2 of
                                Inl err \<Rightarrow> Inl err
                              | Inr fx2 \<Rightarrow>
                                  Inr (s', fx @ [Emit (MemberJoined poolId' (msg_sender e)),
                                                 Emit (PaymentCollected poolId' (msg_sender e)
                                                         memberShare)] @ fx2)))))))"

definition leavePool :: "env \<Rightarrow> pool_state \<Rightarrow> uint256 \<Rightarrow> error + (pool_state \<times> effect list)" where
  "leavePool e s poolId' =
     (if \<not> validPool s poolId' then Inl (Require ''Pool does not exist'')
      else
        (let pool = pools s poolId' in
         if \<not> isActive (members pool (msg_sender e)) then Inl (Require ''Not a member of this pool'')
         else removeMember s poolId' (msg_sender e) ''Member left voluntarily''))"

text \<open>
  \<open>collectFromMember\<close> is called by the contract on itself inside \<open>try\<close>: \<open>True\<close> when the
  call returns, \<open>False\<close> when it reverts. A pool in the native coin always reverts.
\<close>

definition collectFromMember :: "pool_state \<Rightarrow> uint256 \<Rightarrow> ext_result \<Rightarrow> bool" where
  "collectFromMember s poolId' r =
     (if pool_token (pools s poolId') = 0 then False
      else (case r of Reverted \<Rightarrow> False | Returned _ \<Rightarrow> True))"

definition tryCollectPayment ::
  "env \<Rightarrow> pool_state \<Rightarrow> uint256 \<Rightarrow> address \<Rightarrow> uint256 \<Rightarrow> ext_result
     \<Rightarrow> error + (bool \<times> pool_state \<times> effect list)" where
  "tryCollectPayment e s poolId' member' amount' r =
     (let pool = pools s poolId' in
      if collectFromMember s poolId' r then
        (case checked_add (totalPaid (members pool member')) amount' of
           Inl err \<Rightarrow> Inl err
         | Inr paid \<Rightarrow>
             Inr (True,
                  s \<lparr> pools := (pools s)
                        (poolId' := pool
                           \<lparr> members := (members pool)
                                (member' := (members pool member')
                                   \<lparr> lastPayment := block_timestamp e,
                                     totalPaid := paid,
                                     failedPaymentCount := 0 \<rparr>) \<rparr>) \<rparr>,
                  [TokenTransferFrom (pool_token pool) member' amount',
                   Emit (PaymentCollected poolId' member' amount')]))
      else Inr (False, s, []))"

text \<open>
  The body of the loop of \<open>collectPayments\<close> at index \<open>i\<close>. It returns the index as the
  body leaves it (after \<open>i--\<close> where a member was removed; \<open>i--\<close> at index 0 is an
  underflow); the loop then increments it.
\<close>

definition collect_body ::
  "env \<Rightarrow> uint256 \<Rightarrow> uint256 \<Rightarrow> (nat \<Rightarrow> ext_result) \<Rightarrow> nat \<Rightarrow> nat \<Rightarrow> pool_state
     \<Rightarrow> uint256 \<Rightarrow> uint256 \<Rightarrow> effect list
     \<Rightarrow> error + (nat \<times> nat \<times> pool_state \<times> uint256 \<times> uint256 \<times> effect list)" where
  "collect_body e poolId' memberShare answers i k s successfulPayments totalCollected fx =
     (let member = memberList (pools s poolId') ! i in
      if \<not> isActive (members (pools s poolId') member) then
        Inr (i, k, s, successfulPayments, totalCollected, fx)
      else
        (case tryCollectPayment e s poolId' member memberShare (answers k) of
           Inl err \<Rightarrow> Inl err
         | Inr (collected, s1, fx1) \<Rightarrow>
             if collected then
               (case checked_add successfulPayments 1 of
                  Inl err \<Rightarrow> Inl err
                | Inr successfulPayments1 \<Rightarrow>
                    (case checked_add totalCollected memberShare of
                       Inl err \<Rightarrow> Inl err
                     | Inr totalCollected1 \<Rightarrow>
                         Inr (i, Suc k, s1, successfulPayments1, totalCollected1, fx @ fx1)))
             else
               (case checked_add (failedPaymentCount (members (pools s1 poolId') member)) 1 of
                  Inl err \<Rightarrow> Inl err
                | Inr failed \<Rightarrow>
                    (let s2 = s1 \<lparr> pools := (pools s1)
                                   (poolId' := (pools s1 poolId')
                                      \<lparr> members := (members (pools s1 poolId'))
                                           (member := (members (pools s1 poolId') member)
                                              \<lparr> failedPaymentCount := failed \<rparr>) \<rparr>) \<rparr>;
                         fx2 = fx @ fx1 @ [Emit (PaymentFailed poolId' member)]
                     in if failedPaymentCount (members (pools s2 poolId') member)
                             \<ge> MAX_FAILED_PAYMENTS then
                          (case removeMember s2 poolId' member ''Too many failed payments'' of
                             Inl err \<Rightarrow> Inl err
                           | Inr (s3, fx3) \<Rightarrow>
                               if i = 0 then Inl Panic
                               else Inr (i - 1, Suc k, s3, successfulPayments, totalCollected,
                                         fx2 @ fx3))
                        else Inr (i, Suc k, s2, successfulPayments, totalCollected, fx2)))))"



text \<open>The loop terminates: a removal shortens the member list, every other step moves on.\<close>

lemma removeFromList_length:
  "x \<in> set (drop i xs) \<Longrightarrow> length (removeFromList x i xs) < length xs"
proof (induction x i xs rule: removeFromList.induct)
  case (1 x i xs)
  show ?case
  proof (cases "i < length xs")
    case False
    with "1.prems" show ?thesis by simp
  next
    case True
    show ?thesis
    proof (cases "xs ! i = x")
      case True
      with \<open>i < length xs\<close> show ?thesis
        by (subst removeFromList.simps) simp
    next
      case False
      from \<open>i < length xs\<close> have "drop i xs = xs ! i # drop (Suc i) xs"
        by (simp add: Cons_nth_drop_Suc)
      with False "1.prems" have "x \<in> set (drop (Suc i) xs)" by auto
      with "1.IH" [OF True False] have "length (removeFromList x (Suc i) xs) < length xs" .
      with True False show ?thesis
        by (subst removeFromList.simps) simp
    qed
  qed
qed

lemma removeMember_memberList:
  assumes "removeMember s p m reason = Inr (s', fx)" and "m \<in> set (memberList (pools s p))"
  shows "length (memberList (pools s' p)) < length (memberList (pools s p))"
  using assms removeFromList_length [of m 0 "memberList (pools s p)"]
  by (auto simp: removeMember_def Let_def split: sum.splits)

lemma tryCollectPayment_memberList:
  assumes "tryCollectPayment e s p m a r = Inr (b, s', fx)"
  shows "memberList (pools s' p) = memberList (pools s p)"
  using assms
  by (auto simp: tryCollectPayment_def Let_def split: sum.splits if_splits)

lemma removeMember_memberList_eq:
  "removeMember s2 p m reason = Inr (s3, fx3)
    \<Longrightarrow> memberList (pools s3 p) = removeFromList m 0 (memberList (pools s2 p))"
  by (auto simp: removeMember_def Let_def split: sum.splits)

lemma removeFromList_nth_length:
  "i < length xs \<Longrightarrow> length (removeFromList (xs ! i) 0 xs) < length xs"
  by (rule removeFromList_length) simp

lemma collect_body_measure:
  assumes "collect_body e p share answers i k s n t fx = Inr (i', k', s', n', t', fx')"
    and "i < length (memberList (pools s p))"
  shows "length (memberList (pools s' p)) - Suc i' < length (memberList (pools s p)) - i"
proof (cases "isActive (members (pools s p) (memberList (pools s p) ! i))")
  case False
  with assms show ?thesis
    by (simp add: collect_body_def Let_def)
next
  case True
  with assms(1) obtain b s1 fx1
    where tc: "tryCollectPayment e s p (memberList (pools s p) ! i) share (answers k) = Inr (b, s1, fx1)"
    by (auto simp: collect_body_def Let_def split: sum.splits)
  then have keep: "memberList (pools s1 p) = memberList (pools s p)"
    by (rule tryCollectPayment_memberList)
  from assms True tc keep show ?thesis
    unfolding collect_body_def Let_def
    using removeFromList_nth_length [OF assms(2)]
    by (auto split: if_splits sum.splits dest!: removeMember_memberList_eq)
qed

function collect_loop ::
  "env \<Rightarrow> uint256 \<Rightarrow> uint256 \<Rightarrow> (nat \<Rightarrow> ext_result) \<Rightarrow> nat \<Rightarrow> nat \<Rightarrow> pool_state
     \<Rightarrow> uint256 \<Rightarrow> uint256 \<Rightarrow> effect list
     \<Rightarrow> error + (pool_state \<times> uint256 \<times> uint256 \<times> effect list)" where
  "collect_loop e poolId' memberShare answers i k s successfulPayments totalCollected fx =
     (if i < length (memberList (pools s poolId')) then
        (case collect_body e poolId' memberShare answers i k s successfulPayments totalCollected fx of
           Inl err \<Rightarrow> Inl err
         | Inr (i', k', s', successfulPayments', totalCollected', fx') \<Rightarrow>
             collect_loop e poolId' memberShare answers (Suc i') k' s'
               successfulPayments' totalCollected' fx')
      else Inr (s, successfulPayments, totalCollected, fx))"
  by pat_completeness auto
termination
  by (relation "measure (\<lambda>(e, p, share, answers, i, k, s, n, t, fx).
                  length (memberList (pools s p)) - i)")
    (auto dest: collect_body_measure)

declare collect_loop.simps [simp del]


text \<open>
  \<open>collectPayments\<close>: \<open>answers k\<close> is the token's answer to the \<open>k\<close>-th collection of the
  tick, \<open>r1\<close> and \<open>r2\<close> answer the payout.
\<close>

definition collectPayments ::
  "env \<Rightarrow> pool_state \<Rightarrow> uint256 \<Rightarrow> (nat \<Rightarrow> ext_result) \<Rightarrow> ext_result \<Rightarrow> ext_result
     \<Rightarrow> error + (pool_state \<times> effect list)" where
  "collectPayments e s poolId' answers r1 r2 =
     (if \<not> validPool s poolId' then Inl (Require ''Pool does not exist'')
      else if \<not> poolActive s poolId' then Inl (Require ''Pool not active'')
      else
        (let pool = pools s poolId' in
         if \<not> (block_timestamp e \<ge> nextPaymentDue pool) then Inl (Require ''Payment not due yet'')
         else
           (case checked_div (monthlyAmount pool) (maxMembers pool) of
              Inl err \<Rightarrow> Inl err
            | Inr memberShare \<Rightarrow>
                (case collect_loop e poolId' memberShare answers 0 0 s 0 0 [] of
                   Inl err \<Rightarrow> Inl err
                 | Inr (s1, successfulPayments, totalCollected, fx) \<Rightarrow>
                     (case checked_add (block_timestamp e) thirty_days of
                        Inl err \<Rightarrow> Inl err
                      | Inr due \<Rightarrow>
                          (let s2 = s1 \<lparr> pools := (pools s1)
                                         (poolId' := (pools s1 poolId') \<lparr> nextPaymentDue := due \<rparr>) \<rparr>
                           in if totalCollected > 0 then
                                (case processPayout s2 poolId' totalCollected r1 r2 of
                                   Inl err \<Rightarrow> Inl err
                                 | Inr fx2 \<Rightarrow> Inr (s2, fx @ fx2))
                              else Inr (s2, fx)))))))"

datatype pool_call =
    CreatePool string uint256 address uint256
  | JoinPool uint256 uint256 ext_result "uint256 option" ext_result ext_result
  | LeavePool uint256
  | CollectPayments uint256 "nat \<Rightarrow> ext_result" ext_result ext_result

fun pool_exec :: "env \<Rightarrow> pool_state \<Rightarrow> pool_call \<Rightarrow> error + (pool_state \<times> effect list)" where
  "pool_exec e s (CreatePool n a t m) =
     (case createPool e s n a t m of
        Inl err \<Rightarrow> Inl err
      | Inr (poolId, s', fx) \<Rightarrow> Inr (s', fx))"
| "pool_exec e s (JoinPool p v r b r1 r2) = joinPool e v s p r b r1 r2"
| "pool_exec e s (LeavePool p) = leavePool e s p"
| "pool_exec e s (CollectPayments p answers r1 r2) = collectPayments e s p answers r1 r2"

definition pool_apply_call :: "pool_state \<Rightarrow> env \<times> pool_call \<Rightarrow> pool_state" where
  "pool_apply_call s ec =
     (case pool_exec (fst ec) s (snd ec) of Inl err \<Rightarrow> s | Inr (s', fx) \<Rightarrow> s')"

definition pool_replay :: "pool_state \<Rightarrow> (env \<times> pool_call) list \<Rightarrow> pool_state" where
  "pool_replay s ecs = foldl pool_apply_call s ecs"

section \<open>Invariants and scenarios\<close>

text \<open>
  Three properties of every reachable storage of the escrow contract: the fee rate is at
  most 1000 basis points; the id counter is at least 1 and no slot at or above it has been
  written; slot 0 has never been written.
\<close>

definition fee_capped :: "state \<Rightarrow> bool" where
  "fee_capped s = (platformFee s \<le> 1000)"

definition fresh_ids :: "state \<Rightarrow> bool" where
  "fresh_ids s = (1 \<le> nextEscrowId s \<and> (\<forall>i. nextEscrowId s \<le> i \<longrightarrow> escrows s i = zero_escrow))"

definition phantom_untouched :: "state \<Rightarrow> bool" where
  "phantom_untouched s = (escrows s 0 = zero_escrow)"

text \<open>
  Concrete runs of the escrow contract, used to evaluate the code: an escrow of 1000 in the
  native coin between client 1 and freelancer 2, with the deployer 9 as mediator and 7 as
  fee recipient; and an escrow of the largest \<open>uint256\<close> amount in token 5.
\<close>

definition tx_env :: "address \<Rightarrow> uint256 \<Rightarrow> env" where
  "tx_env a t = \<lparr> msg_sender = a, block_timestamp = t \<rparr>"

definition eth_created :: state where
  "eth_created = replay (constructor (tx_env 9 1) 7) [(tx_env 1 10, CreateEscrow 2 9 1000 0 100 ''job'')]"

definition eth_funded :: state where
  "eth_funded = replay eth_created [(tx_env 1 11, FundEscrow 1 1000 Reverted)]"

definition eth_submitted :: state where
  "eth_submitted = replay eth_funded [(tx_env 2 12, SubmitWork 1 ''Qm'')]"

definition max_uint256 :: uint256 where
  "max_uint256 = 115792089237316195423570985008687907853269984665640564039457584007913129639935"

definition huge_submitted :: state where
  "huge_submitted = replay (constructor (tx_env 9 1) 7)
     [(tx_env 1 10, CreateEscrow 2 9 max_uint256 5 100 ''job''),
      (tx_env 1 11, FundEscrow 1 0 (Returned True)),
      (tx_env 2 12, SubmitWork 1 ''Qm'')]"

definition eth_disputed :: state where
  "eth_disputed = replay eth_funded [(tx_env 1 13, RaiseDispute 1)]"

definition token_created :: state where
  "token_created = replay (constructor (tx_env 9 1) 7) [(tx_env 1 10, CreateEscrow 2 9 1000 5 100 ''job'')]"

definition eth_completed :: state where
  "eth_completed = replay eth_submitted [(tx_env 1 14, ApproveWork 1 (Returned True) (Returned True))]"

text \<open>
  Two runs of the pool contract, both of a pool of 400 a month for at most 4 members (a
  share of 100), each stopped after the first collection. In the first the pool is in the
  native coin and has the single member 20, whom the collection cannot charge. In the
  second the pool is in token 5 and has the members 20 and 30; member 20 pays and the
  token reverts for member 30.
\<close>

definition never_pays :: "nat \<Rightarrow> ext_result" where
  "never_pays k = Reverted"

definition second_fails :: "nat \<Rightarrow> ext_result" where
  "second_fails k = (if k = 1 then Reverted else Returned True)"

definition coin_pool_after_tick :: pool_state where
  "coin_pool_after_tick = pool_replay (pool_constructor (tx_env 9 1) 7)
     [(tx_env 10 1000, CreatePool ''svc'' 400 0 4),
      (tx_env 20 2000, JoinPool 1 100 Reverted (Some 100) (Returned True) (Returned True)),
      (tx_env 30 2593000, CollectPayments 1 never_pays Reverted Reverted)]"

definition token_pool_after_tick :: pool_state where
  "token_pool_after_tick = pool_replay (pool_constructor (tx_env 9 1) 7)
     [(tx_env 10 1000, CreatePool ''svc'' 400 5 4),
      (tx_env 20 2000, JoinPool 1 0 (Returned True) (Some 100) (Returned True) (Returned True)),
      (tx_env 30 3000, JoinPool 1 0 (Returned True) (Some 100) (Returned True) (Returned True)),
      (tx_env 40 2593000, CollectPayments 1 second_fails (Returned True) (Returned True))]"

section \<open>Arithmetic and invariant lemmas\<close>

lemma checked_add_Inr:
  "checked_add a b = Inr c \<Longrightarrow> c = a + b \<and> unat c = unat a + unat b"
  by (auto simp: checked_add_def unat_add_lem [THEN iffD1] split: if_splits)

lemma checked_mul_Inr:
  "checked_mul a b = Inr c \<Longrightarrow> c = a * b \<and> unat c = unat a * unat b"
  by (auto simp: checked_mul_def unat_mult_lem [THEN iffD1] split: if_splits)

lemma checked_sub_Inr:
  "checked_sub a b = Inr c \<Longrightarrow> c = a - b \<and> unat b \<le> unat a \<and> unat c = unat a - unat b"
  by (auto simp: checked_sub_def unat_sub word_le_nat_alt split: if_splits)

lemma succ_no_wrap:
  fixes n :: uint256
  assumes "unat (n + 1) = unat n + unat (1::uint256)"
  shows "n < n + 1"
  using assms by (simp add: word_less_nat_alt)

lemma exec_fee_capped:
  assumes "fee_capped s" and "exec e s c = Inr (s', fx)"
  shows "fee_capped s'"
  using assms
  by (cases c) (auto simp: fee_capped_def entry_defs Let_def split: if_splits sum.splits)

lemma createEscrow_fresh_ids:
  assumes "fresh_ids s" and "createEscrow e s f m a t d w = Inr (i, s', fx)"
  shows "fresh_ids s'"
proof -
  from assms(2) have nw: "unat (nextEscrowId s + 1) = unat (nextEscrowId s) + unat (1::uint256)"
    and s': "nextEscrowId s' = nextEscrowId s + 1"
    and esc: "\<And>j. j \<noteq> nextEscrowId s \<Longrightarrow> escrows s' j = escrows s j"
    by (auto simp: createEscrow_def Let_def dest: checked_add_Inr split: if_splits sum.splits)
  from nw have lt: "nextEscrowId s < nextEscrowId s + 1" by (rule succ_no_wrap)
  show ?thesis
    unfolding fresh_ids_def
  proof (intro conjI allI impI)
    from assms(1) lt have "1 \<le> nextEscrowId s" and "nextEscrowId s \<le> nextEscrowId s + 1"
      by (simp_all add: fresh_ids_def)
    then show "1 \<le> nextEscrowId s'"
      unfolding s' by (rule order_trans)
  next
    fix j assume "nextEscrowId s' \<le> j"
    with lt have "nextEscrowId s < j" by (simp add: s')
    then have "j \<noteq> nextEscrowId s" and "nextEscrowId s \<le> j" by auto
    with assms(1) esc show "escrows s' j = zero_escrow"
      by (simp add: fresh_ids_def)
  qed
qed

lemma exec_fresh_ids:
  assumes "fresh_ids s" and "exec e s c = Inr (s', fx)"
  shows "fresh_ids s'"
proof (cases c)
  case (CreateEscrow f m a t d w)
  with assms show ?thesis
    by (auto split: sum.splits dest: createEscrow_fresh_ids)
qed (use assms in \<open>auto simp: fresh_ids_def entry_defs modifier_defs Let_def split: if_splits sum.splits\<close>)

lemma exec_phantom_untouched:
  assumes "phantom_untouched s" and "fresh_ids s" and "msg_sender e \<noteq> 0"
    and "exec e s c = Inr (s', fx)"
  shows "phantom_untouched s'"
proof (cases c)
  case (CreateEscrow f m a t d w)
  from assms(2) have "nextEscrowId s \<noteq> 0"
    by (auto simp: fresh_ids_def)
  with assms CreateEscrow show ?thesis
    by (auto simp: phantom_untouched_def createEscrow_def Let_def split: if_splits sum.splits)
qed (use assms in \<open>auto simp: phantom_untouched_def zero_escrow_def entry_defs modifier_defs Let_def
       split: if_splits sum.splits\<close>)

lemma reachable_invariants:
  assumes "reachable s"
  shows "fee_capped s \<and> fresh_ids s \<and> phantom_untouched s"
  using assms
proof (induction rule: reachable.induct)
  case (reachable_init e f)
  show ?case
    by (simp add: fee_capped_def fresh_ids_def phantom_untouched_def constructor_def)
next
  case (reachable_step s e c s' fx)
  then show ?case
    by (blast intro: exec_fee_capped exec_fresh_ids exec_phantom_untouched)
qed

lemma reachable_apply_call:
  assumes "reachable s" and "msg_sender (fst ec) \<noteq> 0"
  shows "reachable (apply_call s ec)"
proof (cases "exec (fst ec) s (snd ec)")
  case (Inl err)
  with assms(1) show ?thesis by (simp add: apply_call_def)
next
  case (Inr r)
  obtain s' fx where "r = (s', fx)" by (cases r)
  with Inr assms have "reachable s'" by (auto intro: reachable_step)
  with Inr \<open>r = (s', fx)\<close> show ?thesis by (simp add: apply_call_def)
qed

lemma reachable_replay:
  assumes "reachable s" and "\<forall>ec \<in> set ecs. msg_sender (fst ec) \<noteq> 0"
  shows "reachable (replay s ecs)"
  using assms unfolding replay_def
  by (induction ecs arbitrary: s) (simp_all add: reachable_apply_call)

lemma reachable_valid:
  assumes "reachable s" and "status (escrows s i) \<noteq> Created"
  shows "validEscrow s i"
proof (rule ccontr)
  assume "\<not> validEscrow s i"
  then have "nextEscrowId s \<le> i" by (simp add: validEscrow_def)
  with assms(1) have "escrows s i = zero_escrow"
    using reachable_invariants by (auto simp: fresh_ids_def)
  with assms(2) show False by (simp add: zero_escrow_def)
qed

lemma fee_at_most_tenth:
  fixes a f :: nat
  assumes "f \<le> 1000"
  shows "10 * (a * f div 10000) \<le> a"
proof -
  have "a * f \<le> a * 1000" using assms by simp
  then have "a * f div 10000 \<le> a * 1000 div 10000" by (rule div_le_mono)
  also have "a * 1000 div 10000 = a div 10" by simp
  finally show ?thesis by simp
qed

lemmas run_defs = replay_def apply_call_def tx_env_def constructor_def zero_escrow_def
  checked_add_def checked_sub_def checked_mul_def transferFunds_def releasePayment_def transfer_of_def
  max_uint256_def Let_def

lemma eth_submitted_facts:
  "escrows eth_submitted 1 = \<lparr> id' = 1, client = 1, freelancer = 2, mediator = 9, amount = 1000,
     token = 0, status = WorkSubmitted, deadline = 100, workDescription = ''job'', deliveryHash = ''Qm'',
     createdAt = 10, lastUpdated = 12, clientApproved = False, freelancerSubmitted = True \<rparr>
   \<and> nextEscrowId eth_submitted = 2 \<and> platformFee eth_submitted = 250 \<and> feeRecipient eth_submitted = 7"
  by (simp add: eth_submitted_def eth_funded_def eth_created_def run_defs entry_defs modifier_defs)

lemma huge_submitted_facts:
  "escrows huge_submitted 1 = \<lparr> id' = 1, client = 1, freelancer = 2, mediator = 9, amount = max_uint256,
     token = 5, status = WorkSubmitted, deadline = 100, workDescription = ''job'', deliveryHash = ''Qm'',
     createdAt = 10, lastUpdated = 12, clientApproved = False, freelancerSubmitted = True \<rparr>
   \<and> nextEscrowId huge_submitted = 2 \<and> platformFee huge_submitted = 250 \<and> feeRecipient huge_submitted = 7"
  by (simp add: huge_submitted_def run_defs entry_defs modifier_defs)

lemma eth_created_facts:
  "escrows eth_created 1 = \<lparr> id' = 1, client = 1, freelancer = 2, mediator = 9, amount = 1000,
     token = 0, status = Created, deadline = 100, workDescription = ''job'', deliveryHash = [],
     createdAt = 10, lastUpdated = 10, clientApproved = False, freelancerSubmitted = False \<rparr>
   \<and> nextEscrowId eth_created = 2 \<and> platformFee eth_created = 250 \<and> feeRecipient eth_created = 7
   \<and> owner eth_created = 9"
  by (simp add: eth_created_def run_defs entry_defs modifier_defs)

lemma eth_disputed_facts:
  "escrows eth_disputed 1 = \<lparr> id' = 1, client = 1, freelancer = 2, mediator = 9, amount = 1000,
     token = 0, status = Disputed, deadline = 100, workDescription = ''job'', deliveryHash = [],
     createdAt = 10, lastUpdated = 13, clientApproved = False, freelancerSubmitted = False \<rparr>
   \<and> nextEscrowId eth_disputed = 2 \<and> platformFee eth_disputed = 250 \<and> feeRecipient eth_disputed = 7"
  by (simp add: eth_disputed_def eth_funded_def eth_created_def run_defs entry_defs modifier_defs)

lemma token_created_facts:
  "escrows token_created 1 = \<lparr> id' = 1, client = 1, freelancer = 2, mediator = 9, amount = 1000,
     token = 5, status = Created, deadline = 100, workDescription = ''job'', deliveryHash = [],
     createdAt = 10, lastUpdated = 10, clientApproved = False, freelancerSubmitted = False \<rparr>
   \<and> nextEscrowId token_created = 2 \<and> platformFee token_created = 250 \<and> feeRecipient token_created = 7"
  by (simp add: token_created_def run_defs entry_defs modifier_defs)

lemma reachable_scenarios:
  "reachable eth_created" "reachable eth_funded" "reachable eth_submitted" "reachable eth_disputed"
  "reachable token_created" "reachable huge_submitted"
  unfolding eth_disputed_def eth_submitted_def eth_funded_def eth_created_def token_created_def
    huge_submitted_def
  by (intro reachable_replay reachable_init; simp add: tx_env_def)+

lemma eth_completed_facts:
  "escrows eth_completed 1 = \<lparr> id' = 1, client = 1, freelancer = 2, mediator = 9, amount = 1000,
     token = 0, status = Completed, deadline = 100, workDescription = ''job'', deliveryHash = ''Qm'',
     createdAt = 10, lastUpdated = 14, clientApproved = True, freelancerSubmitted = True \<rparr>
   \<and> nextEscrowId eth_completed = 2 \<and> platformFee eth_completed = 250 \<and> feeRecipient eth_completed = 7"
  using eth_submitted_facts
  by (simp add: eth_completed_def run_defs approveWork_def modifier_defs)

lemma exec_counter_mono:
  assumes "exec e s c = Inr (s', fx)"
  shows "nextEscrowId s \<le> nextEscrowId s'"
proof (cases c)
  case (CreateEscrow f m a t d w)
  with assms have "unat (nextEscrowId s + 1) = unat (nextEscrowId s) + unat (1::uint256)"
    and "nextEscrowId s' = nextEscrowId s + 1"
    by (auto simp: createEscrow_def Let_def dest: checked_add_Inr split: if_splits sum.splits)
  then show ?thesis
    using succ_no_wrap [of "nextEscrowId s"] by simp
qed (use assms in \<open>auto simp: entry_defs Let_def split: if_splits sum.splits\<close>)

lemma terminal_blocks:
  assumes "terminal (status (escrows s i))"
  shows "fundEscrow e v s i r = Inl (Require
           (if \<not> validEscrow s i then ''Escrow does not exist''
            else if \<not> onlyClient e s i then ''Only client can call this''
            else ''Escrow already funded or completed''))"
    and "submitWork e s i h = Inl (Require
           (if \<not> validEscrow s i then ''Escrow does not exist''
            else if \<not> onlyFreelancer e s i then ''Only freelancer can call this''
            else ''Escrow not funded''))"
    and "approveWork e s i r1 r2 = Inl (Require
           (if \<not> validEscrow s i then ''Escrow does not exist''
            else if \<not> onlyClient e s i then ''Only client can call this''
            else ''Work not submitted''))"
    and "raiseDispute e s i = Inl (Require
           (if \<not> validEscrow s i then ''Escrow does not exist''
            else if \<not> onlyParties e s i then ''Only client or freelancer can call this''
            else ''Cannot dispute at this stage''))"
    and "resolveDispute e s i a b r1 r2 = Inl (Require
           (if \<not> validEscrow s i then ''Escrow does not exist''
            else if \<not> onlyMediator e s i then ''Only assigned mediator can call this''
            else ''Escrow not disputed''))"
    and "cancelEscrow e s i = Inl (Require
           (if \<not> validEscrow s i then ''Escrow does not exist''
            else if \<not> onlyClient e s i then ''Only client can call this''
            else ''Cannot cancel funded escrow''))"
proof -
  from assms have st: "status (escrows s i) \<noteq> Created" "status (escrows s i) \<noteq> Funded"
    "status (escrows s i) \<noteq> WorkSubmitted" "status (escrows s i) \<noteq> Disputed"
    by (auto simp: terminal_def)
  show "fundEscrow e v s i r = Inl (Require
           (if \<not> validEscrow s i then ''Escrow does not exist''
            else if \<not> onlyClient e s i then ''Only client can call this''
            else ''Escrow already funded or completed''))"
    using st by (simp add: fundEscrow_def Let_def)
  show "submitWork e s i h = Inl (Require
           (if \<not> validEscrow s i then ''Escrow does not exist''
            else if \<not> onlyFreelancer e s i then ''Only freelancer can call this''
            else ''Escrow not funded''))"
    using st by (simp add: submitWork_def Let_def)
  show "approveWork e s i r1 r2 = Inl (Require
           (if \<not> validEscrow s i then ''Escrow does not exist''
            else if \<not> onlyClient e s i then ''Only client can call this''
            else ''Work not submitted''))"
    using st by (simp add: approveWork_def Let_def)
  show "raiseDispute e s i = Inl (Require
           (if \<not> validEscrow s i then ''Escrow does not exist''
            else if \<not> onlyParties e s i then ''Only client or freelancer can call this''
            else ''Cannot dispute at this stage''))"
    using st by (simp add: raiseDispute_def Let_def)
  show "resolveDispute e s i a b r1 r2 = Inl (Require
           (if \<not> validEscrow s i then ''Escrow does not exist''
            else if \<not> onlyMediator e s i then ''Only assigned mediator can call this''
            else ''Escrow not disputed''))"
    using st by (simp add: resolveDispute_def Let_def)
  show "cancelEscrow e s i = Inl (Require
           (if \<not> validEscrow s i then ''Escrow does not exist''
            else if \<not> onlyClient e s i then ''Only client can call this''
            else ''Cannot cancel funded escrow''))"
    using st by (simp add: cancelEscrow_def Let_def)
qed

lemma exec_keeps_terminal:
  assumes "terminal (status (escrows s i))" and "validEscrow s i" and "exec e s c = Inr (s', fx)"
  shows "escrows s' i = escrows s i"
proof (cases c)
  case (CreateEscrow f m a t d w)
  from assms(2) have "i \<noteq> nextEscrowId s" by (auto simp: validEscrow_def)
  with assms CreateEscrow show ?thesis
    by (auto simp: createEscrow_def Let_def split: if_splits sum.splits)
next
  case (FundEscrow j v r)
  with assms(3) have "fundEscrow e v s j r = Inr (s', fx)" by simp
  then show ?thesis
    using terminal_blocks(1) [OF assms(1), of e v r]
    by (cases "j = i") (auto simp: fundEscrow_def Let_def split: if_splits sum.splits)
next
  case (SubmitWork j h)
  with assms(3) have "submitWork e s j h = Inr (s', fx)" by simp
  then show ?thesis
    using terminal_blocks(2) [OF assms(1), of e h]
    by (cases "j = i") (auto simp: submitWork_def Let_def split: if_splits)
next
  case (ApproveWork j r1 r2)
  with assms(3) have "approveWork e s j r1 r2 = Inr (s', fx)" by simp
  then show ?thesis
    using terminal_blocks(3) [OF assms(1), of e r1 r2]
    by (cases "j = i") (auto simp: approveWork_def Let_def split: if_splits sum.splits)
next
  case (RaiseDispute j)
  with assms(3) have "raiseDispute e s j = Inr (s', fx)" by simp
  then show ?thesis
    using terminal_blocks(4) [OF assms(1), of e]
    by (cases "j = i") (auto simp: raiseDispute_def Let_def split: if_splits)
next
  case (ResolveDispute j a b r1 r2)
  with assms(3) have "resolveDispute e s j a b r1 r2 = Inr (s', fx)" by simp
  then show ?thesis
    using terminal_blocks(5) [OF assms(1), of e a b r1 r2]
    by (cases "j = i") (auto simp: resolveDispute_def Let_def split: if_splits sum.splits)
next
  case (CancelEscrow j)
  with assms(3) have "cancelEscrow e s j = Inr (s', fx)" by simp
  then show ?thesis
    using terminal_blocks(6) [OF assms(1), of e]
    by (cases "j = i") (auto simp: cancelEscrow_def Let_def split: if_splits)
qed (use assms in \<open>auto simp: entry_defs Let_def split: if_splits\<close>)

lemma apply_call_keeps_terminal:
  assumes "terminal (status (escrows s i))" and "validEscrow s i"
  shows "escrows (apply_call s ec) i = escrows s i \<and> validEscrow (apply_call s ec) i"
proof (cases "exec (fst ec) s (snd ec)")
  case (Inl err)
  with assms show ?thesis by (simp add: apply_call_def)
next
  case (Inr r)
  obtain s' fx where r: "r = (s', fx)" by (cases r)
  with Inr assms have "escrows s' i = escrows s i" and "nextEscrowId s \<le> nextEscrowId s'"
    by (auto dest: exec_keeps_terminal exec_counter_mono)
  with assms(2) Inr r show ?thesis
    by (auto simp: apply_call_def validEscrow_def)
qed

lemma replay_keeps_terminal:
  assumes "terminal (status (escrows s i))" and "validEscrow s i"
  shows "escrows (replay s ecs) i = escrows s i"
  using assms unfolding replay_def
proof (induction ecs arbitrary: s)
  case Nil
  show ?case by simp
next
  case (Cons ec ecs)
  from Cons.prems have step: "escrows (apply_call s ec) i = escrows s i"
    and "validEscrow (apply_call s ec) i"
    by (simp_all add: apply_call_keeps_terminal)
  with Cons.prems Cons.IH [of "apply_call s ec"] show ?case by simp
qed

lemma succeeds_simps [simp]: "succeeds (Inr x)" "\<not> succeeds (Inl err)"
  by (simp_all add: succeeds_def)

lemma succeeds_Inr: "succeeds r \<Longrightarrow> r = Inr (projr r)"
  by (cases r) simp_all

lemma eth_funded_facts:
  "escrows eth_funded 1 = \<lparr> id' = 1, client = 1, freelancer = 2, mediator = 9, amount = 1000,
     token = 0, status = Funded, deadline = 100, workDescription = ''job'', deliveryHash = [],
     createdAt = 10, lastUpdated = 11, clientApproved = False, freelancerSubmitted = False \<rparr>
   \<and> nextEscrowId eth_funded = 2 \<and> platformFee eth_funded = 250 \<and> feeRecipient eth_funded = 7"
  by (simp add: eth_funded_def eth_created_def run_defs entry_defs modifier_defs)

lemma fee_le_amount:
  assumes "reachable s" and "unat a * unat (platformFee s) < 2 ^ 256"
  shows "unat (a * platformFee s div 10000) \<le> unat a"
proof -
  from assms(1) have cap: "unat (platformFee s) \<le> 1000"
    using reachable_invariants by (auto simp: fee_capped_def word_le_nat_alt)
  from assms(2) have "unat (a * platformFee s div 10000) = unat a * unat (platformFee s) div 10000"
    by (simp add: unat_div unat_mult_lem [THEN iffD1])
  moreover have "10 * (unat a * unat (platformFee s) div 10000) \<le> unat a"
    using cap by (rule fee_at_most_tenth)
  ultimately show ?thesis by simp
qed

lemma fundEscrow_succeeds_iff:
  "succeeds (fundEscrow e v s i r) \<longleftrightarrow>
     validEscrow s i \<and> client (escrows s i) = msg_sender e \<and> status (escrows s i) = Created
     \<and> (if token (escrows s i) = 0 then v = amount (escrows s i) else v = 0 \<and> r \<noteq> Reverted)"
  by (cases r) (auto simp: fundEscrow_def onlyClient_def Let_def)

lemma approveWork_succeeds_iff:
  assumes "reachable s"
  shows "succeeds (approveWork e s i r1 r2) \<longleftrightarrow>
     status (escrows s i) = WorkSubmitted \<and> client (escrows s i) = msg_sender e
     \<and> unat (amount (escrows s i)) * unat (platformFee s) < 2 ^ 256
     \<and> r1 \<noteq> Reverted \<and> r2 \<noteq> Reverted"
proof (cases "status (escrows s i) = WorkSubmitted \<and> client (escrows s i) = msg_sender e")
  case False
  then show ?thesis
    by (auto simp: approveWork_def onlyClient_def Let_def)
next
  case True
  with assms have valid: "validEscrow s i"
    by (intro reachable_valid) simp_all
  show ?thesis
  proof (cases "unat (amount (escrows s i)) * unat (platformFee s) < 2 ^ 256")
    case False
    with True valid show ?thesis
      by (simp add: approveWork_def onlyClient_def releasePayment_def checked_mul_def Let_def)
  next
    case fits: True
    with assms have "unat (amount (escrows s i) * platformFee s div 10000) \<le> unat (amount (escrows s i))"
      by (rule fee_le_amount)
    with True valid fits show ?thesis
      by (cases r1; cases r2)
        (simp_all add: approveWork_def onlyClient_def releasePayment_def checked_mul_def
          checked_sub_def transferFunds_def Let_def)
  qed
qed

lemma approveWork_Inr:
  assumes "approveWork e s i r1 r2 = Inr (s', fx)"
  shows "validEscrow s' i \<and> status (escrows s' i) = Completed"
  using assms
  by (auto simp: approveWork_def validEscrow_def Let_def split: if_splits sum.splits)

lemma replay_keeps_valid:
  assumes "terminal (status (escrows s i))" and "validEscrow s i"
  shows "validEscrow (replay s ecs) i"
  using assms unfolding replay_def
proof (induction ecs arbitrary: s)
  case Nil
  then show ?case by simp
next
  case (Cons ec ecs)
  from Cons.prems have "escrows (apply_call s ec) i = escrows s i"
    and "validEscrow (apply_call s ec) i"
    by (simp_all add: apply_call_keeps_terminal)
  with Cons.prems Cons.IH [of "apply_call s ec"] show ?case by simp
qed

lemma approveWork_client:
  assumes "approveWork e s i r1 r2 = Inr (s', fx)"
  shows "client (escrows s' i) = client (escrows s i)"
  using assms
  by (auto simp: approveWork_def Let_def split: if_splits sum.splits)

lemma submitWork_succeeds_iff:
  "succeeds (submitWork e s i h) \<longleftrightarrow>
     validEscrow s i \<and> freelancer (escrows s i) = msg_sender e \<and> status (escrows s i) = Funded
     \<and> block_timestamp e \<le> deadline (escrows s i) \<and> h \<noteq> []"
  by (simp add: submitWork_def onlyFreelancer_def Let_def)

lemma counter_has_room:
  assumes "n \<noteq> max_uint256"
  shows "unat n + unat (1::uint256) < 2 ^ 256"
proof -
  have "unat n < 2 ^ 256"
    using unsigned_less [of n, where 'a = nat] by simp
  moreover have "unat n \<noteq> unat max_uint256"
    using assms by (simp add: word_unat_eq_iff)
  moreover have "unat max_uint256 = 2 ^ 256 - 1"
    by (simp add: max_uint256_def)
  ultimately show ?thesis by simp
qed

lemma exec_counter_fixed:
  assumes "exec e s c = Inr (s', fx)" and "\<forall>f m a t d w. c \<noteq> CreateEscrow f m a t d w"
  shows "nextEscrowId s' = nextEscrowId s"
  using assms
  by (cases c) (auto simp: entry_defs Let_def split: if_splits sum.splits)

lemma exec_changes_fee:
  assumes "exec e s c = Inr (s', fx)" and "platformFee s' \<noteq> platformFee s"
  shows "c = SetPlatformFee (platformFee s') \<and> msg_sender e = owner s \<and> platformFee s' \<le> 1000"
  using assms
  by (cases c) (auto simp: entry_defs onlyOwner_def Let_def split: if_splits sum.splits)

lemma approveWork_effects:
  assumes "approveWork e s i r1 r2 = Inr (s', fx)"
  shows "fx = [transfer_of (token (escrows s i)) (freelancer (escrows s i))
                 (amount (escrows s i) - amount (escrows s i) * platformFee s div 10000),
               transfer_of (token (escrows s i)) (feeRecipient s)
                 (amount (escrows s i) * platformFee s div 10000),
               Emit (EscrowCompleted i
                 (amount (escrows s i) - amount (escrows s i) * platformFee s div 10000)
                 (amount (escrows s i) * platformFee s div 10000)),
               Emit (WorkApproved i)]
         \<and> unat (amount (escrows s i)) * unat (platformFee s) < 2 ^ 256"
  using assms
  by (cases r1; cases r2)
    (auto simp: approveWork_def releasePayment_def checked_mul_def checked_sub_def transferFunds_def
      transfer_of_def Let_def split: if_splits)

lemma fundEscrow_result:
  assumes "fundEscrow e v s i r = Inr (s', fx)"
  shows "s' = s \<lparr> escrows := (escrows s)
                  (i := (escrows s i) \<lparr> status := Funded, lastUpdated := block_timestamp e \<rparr>) \<rparr>
    \<and> (if token (escrows s i) = 0
        then v = amount (escrows s i) \<and> fx = [Emit (EscrowFunded i (amount (escrows s i)))]
        else v = 0 \<and> fx = [TokenTransferFrom (token (escrows s i)) (msg_sender e) (amount (escrows s i)),
                            Emit (EscrowFunded i (amount (escrows s i)))])"
  using assms
  by (cases r) (auto simp: fundEscrow_def Let_def split: if_splits)

section \<open>Claims about the escrow contract\<close>

subsection \<open>C1: release on approval\<close>

text \<open>
  C1 as stated says that \<open>approveWork\<close> succeeds for every escrow in status
  \<open>WorkSubmitted\<close> when the client calls it. The product \<open>amount * platformFee\<close> is
  computed in checked \<open>uint256\<close> arithmetic: for the escrow of the largest amount at the
  initial rate of 250 the call panics, although status, caller and existence guards hold
  and both transfers would have succeeded.
\<close>

theorem approveWork_overflow_counterexample:
  "status (escrows huge_submitted 1) = WorkSubmitted
   \<and> client (escrows huge_submitted 1) = msg_sender (tx_env 1 13)
   \<and> validEscrow huge_submitted 1
   \<and> approveWork (tx_env 1 13) huge_submitted 1 (Returned True) (Returned True) = Inl Panic"
  using huge_submitted_facts
  by (simp add: approveWork_def modifier_defs run_defs)

text \<open>
  C1, amended: for every escrow in status \<open>WorkSubmitted\<close> of a reachable storage whose
  product \<open>amount * platformFee\<close> is below \<open>2 ^ 256\<close>, \<open>approveWork\<close> called by the client,
  when both transfers succeed, succeeds, sets the status to \<open>Completed\<close>, and transfers
  exactly \<open>amount - fee\<close> to the freelancer and \<open>fee\<close> to the fee recipient, where
  \<open>fee = floor (amount * platformFee / 10000)\<close>; the two transfers sum to the amount.
\<close>

theorem approveWork_release:
  assumes "reachable s"
    and "status (escrows s i) = WorkSubmitted"
    and "client (escrows s i) = msg_sender e"
    and "unat (amount (escrows s i)) * unat (platformFee s) < 2 ^ 256"
  shows "approveWork e s i (Returned True) (Returned True) =
           Inr (s \<lparr> escrows := (escrows s)
                      (i := (escrows s i) \<lparr> clientApproved := True, status := Completed,
                                            lastUpdated := block_timestamp e \<rparr>) \<rparr>,
                [transfer_of (token (escrows s i)) (freelancer (escrows s i))
                   (amount (escrows s i) - amount (escrows s i) * platformFee s div 10000),
                 transfer_of (token (escrows s i)) (feeRecipient s)
                   (amount (escrows s i) * platformFee s div 10000),
                 Emit (EscrowCompleted i
                   (amount (escrows s i) - amount (escrows s i) * platformFee s div 10000)
                   (amount (escrows s i) * platformFee s div 10000)),
                 Emit (WorkApproved i)])
         \<and> unat (amount (escrows s i) * platformFee s div 10000)
             = unat (amount (escrows s i)) * unat (platformFee s) div 10000
         \<and> unat (amount (escrows s i) - amount (escrows s i) * platformFee s div 10000)
             + unat (amount (escrows s i) * platformFee s div 10000)
             = unat (amount (escrows s i))"
proof -
  let ?a = "amount (escrows s i)" and ?f = "platformFee s"
  let ?fee = "?a * ?f div 10000"
  from assms(1) have cap: "unat ?f \<le> 1000"
    using reachable_invariants by (auto simp: fee_capped_def word_le_nat_alt)
  from assms(1,2) have valid: "validEscrow s i"
    by (intro reachable_valid) simp_all
  from assms(4) have prod: "unat (?a * ?f) = unat ?a * unat ?f"
    by (simp add: unat_mult_lem [THEN iffD1])
  then have fee: "unat ?fee = unat ?a * unat ?f div 10000"
    by (simp add: unat_div)
  have "10 * unat ?fee \<le> unat ?a"
    unfolding fee using cap by (rule fee_at_most_tenth)
  then have le: "unat ?fee \<le> unat ?a" by simp
  then have sub: "unat (?a - ?fee) = unat ?a - unat ?fee"
    by (simp add: unat_sub word_le_nat_alt)
  have run: "approveWork e s i (Returned True) (Returned True) =
           Inr (s \<lparr> escrows := (escrows s)
                      (i := (escrows s i) \<lparr> clientApproved := True, status := Completed,
                                            lastUpdated := block_timestamp e \<rparr>) \<rparr>,
                [transfer_of (token (escrows s i)) (freelancer (escrows s i)) (?a - ?fee),
                 transfer_of (token (escrows s i)) (feeRecipient s) ?fee,
                 Emit (EscrowCompleted i (?a - ?fee) ?fee),
                 Emit (WorkApproved i)])"
    using valid assms(2,3,4) le
    by (simp add: approveWork_def onlyClient_def releasePayment_def checked_mul_def checked_sub_def
        transferFunds_def transfer_of_def Let_def)
  from run fee sub le show ?thesis by simp
qed

text \<open>
  C1 at the escrow of its example: amount 1000 at 250 basis points pays 975 to the
  freelancer and 25 to the fee recipient.
\<close>

theorem approveWork_release_witness:
  "reachable eth_submitted
   \<and> status (escrows eth_submitted 1) = WorkSubmitted
   \<and> client (escrows eth_submitted 1) = msg_sender (tx_env 1 14)
   \<and> unat (amount (escrows eth_submitted 1)) * unat (platformFee eth_submitted) < 2 ^ 256
   \<and> snd (projr (approveWork (tx_env 1 14) eth_submitted 1 (Returned True) (Returned True)))
       = [SendValue 2 975, SendValue 7 25, Emit (EscrowCompleted 1 975 25), Emit (WorkApproved 1)]
   \<and> status (escrows (fst (projr (approveWork (tx_env 1 14) eth_submitted 1 (Returned True) (Returned True)))) 1)
       = Completed"
proof -
  have r: "reachable eth_submitted"
    unfolding eth_submitted_def eth_funded_def eth_created_def
    by (intro reachable_replay reachable_init) (simp_all add: tx_env_def)
  have h: "status (escrows eth_submitted 1) = WorkSubmitted"
    "client (escrows eth_submitted 1) = msg_sender (tx_env 1 14)"
    "unat (amount (escrows eth_submitted 1)) * unat (platformFee eth_submitted) < 2 ^ 256"
    using eth_submitted_facts by (simp_all add: tx_env_def)
  from approveWork_release [OF r h] r h show ?thesis
    using eth_submitted_facts by (simp add: transfer_of_def)
qed

subsection \<open>C2: dispute resolution conserves the amount\<close>

text \<open>
  C2 as stated says that \<open>resolveDispute\<close> succeeds whenever the escrow is \<open>Disputed\<close>,
  the caller is the mediator and the two amounts sum to the escrow's amount. The transfers
  are made by \<open>_transferFunds\<close>, which requires the value transfer to succeed: when the
  client's account refuses the transfer the call fails, with all three conditions true.
\<close>

theorem resolveDispute_transfer_counterexample:
  "status (escrows eth_disputed 1) = Disputed
   \<and> mediator (escrows eth_disputed 1) = msg_sender (tx_env 9 14)
   \<and> (400 :: uint256) + 600 = amount (escrows eth_disputed 1)
   \<and> resolveDispute (tx_env 9 14) eth_disputed 1 400 600 (Returned True) Reverted
       = Inl (Require ''ETH transfer failed'')"
  using eth_disputed_facts
  by (simp add: resolveDispute_def modifier_defs run_defs word_less_nat_alt)

text \<open>
  C2, amended: for every escrow and all amounts \<open>a\<close> and \<open>b\<close>, \<open>resolveDispute\<close> fails
  whenever \<open>a + b\<close> differs from the escrow's amount (a failed call changes nothing and
  transfers nothing); and when the status is \<open>Disputed\<close>, the caller is the assigned
  mediator, \<open>a + b\<close> equals the amount and the transfers it makes succeed, it succeeds,
  transfers exactly \<open>b\<close> to the freelancer and exactly \<open>a\<close> to the client (an amount of 0
  is not transferred), deducts no fee, and sets the status to \<open>Completed\<close>.
\<close>

theorem resolveDispute_conservation:
  "(unat a + unat b \<noteq> unat (amount (escrows s i)) \<longrightarrow> isl (resolveDispute e s i a b r1 r2))
   \<and> (reachable s \<and> status (escrows s i) = Disputed \<and> mediator (escrows s i) = msg_sender e
        \<and> unat a + unat b = unat (amount (escrows s i))
      \<longrightarrow> resolveDispute e s i a b (Returned True) (Returned True) =
            Inr (s \<lparr> escrows := (escrows s)
                       (i := (escrows s i) \<lparr> status := Completed, lastUpdated := block_timestamp e \<rparr>) \<rparr>,
                 (if b > 0 then [transfer_of (token (escrows s i)) (freelancer (escrows s i)) b] else [])
                 @ (if a > 0 then [transfer_of (token (escrows s i)) (client (escrows s i)) a] else [])
                 @ [Emit (DisputeResolved i
                      (if b > a then freelancer (escrows s i) else client (escrows s i)) a b)]))"
proof (intro conjI impI)
  assume ne: "unat a + unat b \<noteq> unat (amount (escrows s i))"
  show "isl (resolveDispute e s i a b r1 r2)"
  proof (cases "checked_add a b")
    case (Inl err)
    then show ?thesis
      by (simp add: resolveDispute_def Let_def)
  next
    case (Inr c)
    then have "unat c = unat a + unat b" by (simp add: checked_add_Inr)
    with ne have "c \<noteq> amount (escrows s i)" by auto
    with Inr show ?thesis
      by (simp add: resolveDispute_def Let_def)
  qed
next
  assume h: "reachable s \<and> status (escrows s i) = Disputed \<and> mediator (escrows s i) = msg_sender e
        \<and> unat a + unat b = unat (amount (escrows s i))"
  then have valid: "validEscrow s i"
    by (intro reachable_valid) simp_all
  from h have "unat a + unat b < 2 ^ 256"
    using unsigned_less [of "amount (escrows s i)", where 'a = nat] by simp
  moreover from this h have "a + b = amount (escrows s i)"
    by (simp add: word_unat_eq_iff unat_add_lem [THEN iffD1])
  ultimately have add: "checked_add a b = Inr (amount (escrows s i))"
    by (simp add: checked_add_def)
  from valid h add show "resolveDispute e s i a b (Returned True) (Returned True) =
            Inr (s \<lparr> escrows := (escrows s)
                       (i := (escrows s i) \<lparr> status := Completed, lastUpdated := block_timestamp e \<rparr>) \<rparr>,
                 (if b > 0 then [transfer_of (token (escrows s i)) (freelancer (escrows s i)) b] else [])
                 @ (if a > 0 then [transfer_of (token (escrows s i)) (client (escrows s i)) a] else [])
                 @ [Emit (DisputeResolved i
                      (if b > a then freelancer (escrows s i) else client (escrows s i)) a b)])"
    by (simp add: resolveDispute_def onlyMediator_def transferFunds_def transfer_of_def Let_def)
qed

text \<open>
  C2 at an escrow of 1000 in dispute: 400 and 500 are rejected, 400 and 600 are paid out.
\<close>

theorem resolveDispute_conservation_witness:
  "unat (400 :: uint256) + unat (500 :: uint256) \<noteq> unat (amount (escrows eth_disputed 1))
   \<and> isl (resolveDispute (tx_env 9 14) eth_disputed 1 400 500 (Returned True) (Returned True))
   \<and> reachable eth_disputed \<and> status (escrows eth_disputed 1) = Disputed
   \<and> mediator (escrows eth_disputed 1) = msg_sender (tx_env 9 14)
   \<and> unat (400 :: uint256) + unat (600 :: uint256) = unat (amount (escrows eth_disputed 1))
   \<and> snd (projr (resolveDispute (tx_env 9 14) eth_disputed 1 400 600 (Returned True) (Returned True)))
       = [SendValue 2 600, SendValue 1 400, Emit (DisputeResolved 1 2 400 600)]
   \<and> status (escrows (fst (projr (resolveDispute (tx_env 9 14) eth_disputed 1 400 600
         (Returned True) (Returned True)))) 1) = Completed"
proof -
  have h1: "unat (400 :: uint256) + unat (500 :: uint256) \<noteq> unat (amount (escrows eth_disputed 1))"
    using eth_disputed_facts by simp
  have h2: "reachable eth_disputed \<and> status (escrows eth_disputed 1) = Disputed
      \<and> mediator (escrows eth_disputed 1) = msg_sender (tx_env 9 14)
      \<and> unat (400 :: uint256) + unat (600 :: uint256) = unat (amount (escrows eth_disputed 1))"
    using eth_disputed_facts reachable_scenarios by (simp add: tx_env_def)
  from resolveDispute_conservation [of 400 500 eth_disputed 1 "tx_env 9 14" "Returned True" "Returned True"] h1
  have c1: "isl (resolveDispute (tx_env 9 14) eth_disputed 1 400 500 (Returned True) (Returned True))"
    by blast
  from resolveDispute_conservation [of 400 600 eth_disputed 1 "tx_env 9 14"] h2
  have c2: "resolveDispute (tx_env 9 14) eth_disputed 1 400 600 (Returned True) (Returned True) =
            Inr (eth_disputed \<lparr> escrows := (escrows eth_disputed)
                       (1 := (escrows eth_disputed 1) \<lparr> status := Completed,
                               lastUpdated := block_timestamp (tx_env 9 14) \<rparr>) \<rparr>,
                 (if (600::uint256) > 0 then [transfer_of (token (escrows eth_disputed 1)) (freelancer (escrows eth_disputed 1)) 600] else [])
                 @ (if (400::uint256) > 0 then [transfer_of (token (escrows eth_disputed 1)) (client (escrows eth_disputed 1)) 400] else [])
                 @ [Emit (DisputeResolved 1
                      (if (600::uint256) > 400 then freelancer (escrows eth_disputed 1) else client (escrows eth_disputed 1)) 400 600)])"
    by blast
  from h1 h2 c1 show ?thesis
    unfolding c2 using eth_disputed_facts by (simp add: transfer_of_def word_less_nat_alt)
qed


subsection \<open>C3: terminal states\<close>

text \<open>
  C3: for every escrow whose status is \<open>Completed\<close>, \<open>Cancelled\<close> or \<open>Refunded\<close>, each
  of \<open>fundEscrow\<close>, \<open>submitWork\<close>, \<open>approveWork\<close>, \<open>raiseDispute\<close>, \<open>resolveDispute\<close> and
  \<open>cancelEscrow\<close> fails, at its status guard when the existence and caller guards let the
  call through; and no sequence of transactions changes any field of the record of an
  existing escrow in such a status.
\<close>

theorem terminal_is_final:
  assumes "terminal (status (escrows s i))"
  shows "fundEscrow e v s i r = Inl (Require
           (if \<not> validEscrow s i then ''Escrow does not exist''
            else if \<not> onlyClient e s i then ''Only client can call this''
            else ''Escrow already funded or completed''))
    \<and> submitWork e s i h = Inl (Require
           (if \<not> validEscrow s i then ''Escrow does not exist''
            else if \<not> onlyFreelancer e s i then ''Only freelancer can call this''
            else ''Escrow not funded''))
    \<and> approveWork e s i r1 r2 = Inl (Require
           (if \<not> validEscrow s i then ''Escrow does not exist''
            else if \<not> onlyClient e s i then ''Only client can call this''
            else ''Work not submitted''))
    \<and> raiseDispute e s i = Inl (Require
           (if \<not> validEscrow s i then ''Escrow does not exist''
            else if \<not> onlyParties e s i then ''Only client or freelancer can call this''
            else ''Cannot dispute at this stage''))
    \<and> resolveDispute e s i a b r1 r2 = Inl (Require
           (if \<not> validEscrow s i then ''Escrow does not exist''
            else if \<not> onlyMediator e s i then ''Only assigned mediator can call this''
            else ''Escrow not disputed''))
    \<and> cancelEscrow e s i = Inl (Require
           (if \<not> validEscrow s i then ''Escrow does not exist''
            else if \<not> onlyClient e s i then ''Only client can call this''
            else ''Cannot cancel funded escrow''))
    \<and> (validEscrow s i \<longrightarrow> escrows (replay s ecs) i = escrows s i)"
  using terminal_blocks [OF assms] replay_keeps_terminal [OF assms]
  by simp

text \<open>
  C3 at the completed escrow of 1000: approval and cancellation are refused, and three
  further transactions leave its record as it is.
\<close>

theorem terminal_is_final_witness:
  "terminal (status (escrows eth_completed 1)) \<and> validEscrow eth_completed 1
   \<and> approveWork (tx_env 1 15) eth_completed 1 (Returned True) (Returned True)
       = Inl (Require ''Work not submitted'')
   \<and> cancelEscrow (tx_env 1 15) eth_completed 1 = Inl (Require ''Cannot cancel funded escrow'')
   \<and> escrows (replay eth_completed
        [(tx_env 2 16, RaiseDispute 1), (tx_env 3 17, CreateEscrow 4 9 5 0 100 ''next''),
         (tx_env 9 18, ResolveDispute 1 400 600 (Returned True) (Returned True))]) 1
       = escrows eth_completed 1"
proof -
  have t: "terminal (status (escrows eth_completed 1))"
    using eth_completed_facts by (simp add: terminal_def)
  have v: "validEscrow eth_completed 1"
    using eth_completed_facts by (simp add: validEscrow_def word_less_nat_alt)
  have c: "onlyClient (tx_env 1 15) eth_completed 1"
    using eth_completed_facts by (simp add: onlyClient_def tx_env_def)
  from terminal_is_final [OF t, of "tx_env 1 15" _ _ _ "Returned True" "Returned True" _ _
      "[(tx_env 2 16, RaiseDispute 1), (tx_env 3 17, CreateEscrow 4 9 5 0 100 ''next''),
         (tx_env 9 18, ResolveDispute 1 400 600 (Returned True) (Returned True))]"] t v c
  show ?thesis by simp
qed

subsection \<open>C4: funding and a failed debit\<close>

text \<open>
  C4 says that when the debit fails the whole of \<open>fundEscrow\<close> fails and the escrow is
  unchanged. For an escrow in a token the debit is the call \<open>transferFrom\<close>, and the code
  drops the boolean it returns: when the token reports the failed transfer by returning
  \<open>false\<close> instead of reverting, \<open>fundEscrow\<close> succeeds and the escrow becomes \<open>Funded\<close>
  although nothing was debited. (In the native coin, and for a token that reverts, the
  claim holds: a successful call has received \<open>msg.value = amount\<close> or issued the
  \<open>transferFrom\<close> of the amount, and a failed call changes nothing.) The code evaluated
  at this input:
\<close>

theorem fundEscrow_unchecked_debit:
  "status (escrows token_created 1) = Created
   \<and> client (escrows token_created 1) = msg_sender (tx_env 1 11)
   \<and> token (escrows token_created 1) = 5
   \<and> fundEscrow (tx_env 1 11) 0 token_created 1 (Returned False)
       = Inr (apply_call token_created (tx_env 1 11, FundEscrow 1 0 (Returned False)),
              [TokenTransferFrom 5 1 1000, Emit (EscrowFunded 1 1000)])
   \<and> status (escrows (apply_call token_created (tx_env 1 11, FundEscrow 1 0 (Returned False))) 1)
       = Funded"
  using token_created_facts
  by (simp add: fundEscrow_def modifier_defs run_defs word_less_nat_alt)

subsection \<open>C5: no double release\<close>

text \<open>
  C5 as stated says that of two calls of \<open>approveWork\<close> by the client, starting from
  \<open>WorkSubmitted\<close>, the first succeeds and the second fails. When the freelancer's account
  refuses the value transfer the first call fails and changes nothing, and a second call
  whose transfers go through then succeeds.
\<close>

theorem approveWork_retry_counterexample:
  "status (escrows eth_submitted 1) = WorkSubmitted
   \<and> client (escrows eth_submitted 1) = msg_sender (tx_env 1 14)
   \<and> approveWork (tx_env 1 14) eth_submitted 1 Reverted (Returned True)
       = Inl (Require ''ETH transfer failed'')
   \<and> succeeds (approveWork (tx_env 1 15)
            (apply_call eth_submitted (tx_env 1 14, ApproveWork 1 Reverted (Returned True))) 1
            (Returned True) (Returned True))"
  using eth_submitted_facts
  by (simp add: approveWork_def modifier_defs run_defs word_less_nat_alt)

text \<open>
  C5, amended: whenever a call of \<open>approveWork\<close> succeeds, every later call of
  \<open>approveWork\<close> on the same escrow fails, whether it comes at once or after any sequence
  of other transactions: the escrow's record stays as the successful call left it, with
  status \<open>Completed\<close>, and the later call fails at the status guard when the client makes
  it and at the caller guard otherwise. So the release is paid at most once. From
  \<open>WorkSubmitted\<close>, called by the client, the first call succeeds when
  \<open>amount * platformFee\<close> is below \<open>2 ^ 256\<close> and both transfers succeed; and
  \<open>resolveDispute\<close> on an escrow whose status is not \<open>Disputed\<close> always fails.
\<close>

theorem approveWork_no_double_release:
  "(approveWork e s i r1 r2 = Inr (s', fx) \<longrightarrow>
      approveWork e' s' i q1 q2 = Inl (Require
        (if onlyClient e' s' i then ''Work not submitted'' else ''Only client can call this''))
      \<and> escrows (replay s' ecs) i = escrows s' i
      \<and> status (escrows (replay s' ecs) i) = Completed
      \<and> approveWork e' (replay s' ecs) i q1 q2 = Inl (Require
          (if client (escrows s i) = msg_sender e' then ''Work not submitted''
           else ''Only client can call this'')))
   \<and> (reachable s \<and> status (escrows s i) = WorkSubmitted \<and> client (escrows s i) = msg_sender e
        \<and> unat (amount (escrows s i)) * unat (platformFee s) < 2 ^ 256
      \<longrightarrow> succeeds (approveWork e s i (Returned True) (Returned True)))
   \<and> (status (escrows s i) \<noteq> Disputed \<longrightarrow> isl (resolveDispute e s i a b r1 r2))"
proof (intro conjI impI)
  assume run: "approveWork e s i r1 r2 = Inr (s', fx)"
  then have compl: "validEscrow s' i" "status (escrows s' i) = Completed"
    using approveWork_Inr by blast+
  then have fin: "terminal (status (escrows s' i))"
    by (simp add: terminal_def)
  from compl show "approveWork e' s' i q1 q2 = Inl (Require
        (if onlyClient e' s' i then ''Work not submitted'' else ''Only client can call this''))"
    by (simp add: approveWork_def Let_def)
  from fin compl(1) show same: "escrows (replay s' ecs) i = escrows s' i"
    by (rule replay_keeps_terminal)
  with compl(2) show later: "status (escrows (replay s' ecs) i) = Completed"
    by simp
  from fin compl(1) have "validEscrow (replay s' ecs) i"
    by (rule replay_keeps_valid)
  moreover from run same have "client (escrows (replay s' ecs) i) = client (escrows s i)"
    by (simp add: approveWork_client)
  ultimately show "approveWork e' (replay s' ecs) i q1 q2 = Inl (Require
          (if client (escrows s i) = msg_sender e' then ''Work not submitted''
           else ''Only client can call this''))"
    using later by (simp add: approveWork_def onlyClient_def Let_def)
next
  assume "reachable s \<and> status (escrows s i) = WorkSubmitted \<and> client (escrows s i) = msg_sender e
        \<and> unat (amount (escrows s i)) * unat (platformFee s) < 2 ^ 256"
  then show "succeeds (approveWork e s i (Returned True) (Returned True))"
    by (simp add: approveWork_succeeds_iff)
next
  assume "status (escrows s i) \<noteq> Disputed"
  then show "isl (resolveDispute e s i a b r1 r2)"
    by (simp add: resolveDispute_def Let_def)
qed

text \<open>
  C5 at the escrow of 1000: the first approval succeeds; a second approval is refused,
  at once and after three further transactions; and so is a resolution of the undisputed
  escrow.
\<close>

theorem approveWork_no_double_release_witness:
  "reachable eth_submitted \<and> status (escrows eth_submitted 1) = WorkSubmitted
   \<and> client (escrows eth_submitted 1) = msg_sender (tx_env 1 14)
   \<and> unat (amount (escrows eth_submitted 1)) * unat (platformFee eth_submitted) < 2 ^ 256
   \<and> succeeds (approveWork (tx_env 1 14) eth_submitted 1 (Returned True) (Returned True))
   \<and> approveWork (tx_env 1 15)
        (fst (projr (approveWork (tx_env 1 14) eth_submitted 1 (Returned True) (Returned True)))) 1
        (Returned True) (Returned True) = Inl (Require ''Work not submitted'')
   \<and> approveWork (tx_env 1 19)
        (replay (fst (projr (approveWork (tx_env 1 14) eth_submitted 1 (Returned True) (Returned True))))
           [(tx_env 2 16, RaiseDispute 1), (tx_env 3 17, CreateEscrow 4 9 5 0 100 ''next''),
            (tx_env 9 18, SetPlatformFee 0)]) 1
        (Returned True) (Returned True) = Inl (Require ''Work not submitted'')
   \<and> status (escrows eth_submitted 1) \<noteq> Disputed
   \<and> isl (resolveDispute (tx_env 9 14) eth_submitted 1 400 600 (Returned True) (Returned True))"
proof -
  let ?first = "approveWork (tx_env 1 14) eth_submitted 1 (Returned True) (Returned True)"
  let ?later = "[(tx_env 2 16, RaiseDispute 1), (tx_env 3 17, CreateEscrow 4 9 5 0 100 ''next''),
            (tx_env 9 18, SetPlatformFee 0)]"
  have h: "reachable eth_submitted \<and> status (escrows eth_submitted 1) = WorkSubmitted
      \<and> client (escrows eth_submitted 1) = msg_sender (tx_env 1 14)
      \<and> unat (amount (escrows eth_submitted 1)) * unat (platformFee eth_submitted) < 2 ^ 256"
    using eth_submitted_facts reachable_scenarios by (simp add: tx_env_def)
  have nd: "status (escrows eth_submitted 1) \<noteq> Disputed"
    using eth_submitted_facts by simp
  note first = approveWork_no_double_release [where e = "tx_env 1 14" and s = eth_submitted and i = 1
      and ?r1.0 = "Returned True" and ?r2.0 = "Returned True"
      and s' = "fst (projr ?first)" and fx = "snd (projr ?first)"
      and ?q1.0 = "Returned True" and ?q2.0 = "Returned True" and ecs = ?later]
  from first [where e' = "tx_env 1 15"] h have ok: "succeeds ?first"
    by blast
  then have eq: "?first = Inr (fst (projr ?first), snd (projr ?first))"
    using succeeds_Inr by fastforce
  have cl: "onlyClient (tx_env 1 15) (fst (projr ?first)) 1"
    using eth_submitted_facts
    by (simp add: approveWork_def modifier_defs run_defs word_less_nat_alt)
  from first [where e' = "tx_env 1 15"] eq cl
  have again: "approveWork (tx_env 1 15) (fst (projr ?first)) 1 (Returned True) (Returned True)
      = Inl (Require ''Work not submitted'')"
    by simp
  have cl': "client (escrows eth_submitted 1) = msg_sender (tx_env 1 19)"
    using eth_submitted_facts by (simp add: tx_env_def)
  from first [where e' = "tx_env 1 19"] eq cl'
  have later: "approveWork (tx_env 1 19) (replay (fst (projr ?first)) ?later) 1
      (Returned True) (Returned True) = Inl (Require ''Work not submitted'')"
    by simp
  from approveWork_no_double_release [where e = "tx_env 9 14" and s = eth_submitted and i = 1
      and ?r1.0 = "Returned True" and ?r2.0 = "Returned True" and a = 400 and b = 600] nd
  have rd: "isl (resolveDispute (tx_env 9 14) eth_submitted 1 400 600 (Returned True) (Returned True))"
    by blast
  from h nd ok again later rd show ?thesis by simp
qed


subsection \<open>C6: the deadline binds submission only\<close>

text \<open>
  C6 as stated says that \<open>fundEscrow\<close> and \<open>approveWork\<close> succeed after the deadline
  whenever their status and caller guards hold. After the deadline as before it,
  \<open>fundEscrow\<close> still fails when the payment does not go through: here the token's
  \<open>transferFrom\<close> reverts.
\<close>

theorem fundEscrow_after_deadline_counterexample:
  "status (escrows token_created 1) = Created
   \<and> client (escrows token_created 1) = msg_sender (tx_env 1 200)
   \<and> validEscrow token_created 1
   \<and> deadline (escrows token_created 1) < block_timestamp (tx_env 1 200)
   \<and> fundEscrow (tx_env 1 200) 0 token_created 1 Reverted = Inl CallReverted"
  using token_created_facts
  by (simp add: fundEscrow_def modifier_defs run_defs word_less_nat_alt)

text \<open>
  C6, amended: \<open>submitWork\<close> fails whenever the current time is strictly after the deadline;
  it succeeds exactly when the escrow exists, the status is \<open>Funded\<close>, the caller is the
  freelancer, the time is at most the deadline and the delivery hash is not empty, and it
  then records the hash and sets the status to \<open>WorkSubmitted\<close>. \<open>fundEscrow\<close> and
  \<open>approveWork\<close> have no deadline guard: whether they succeed depends on neither the
  deadline nor the time. \<open>fundEscrow\<close> succeeds exactly when its existence, status and
  caller guards hold and the payment goes through (\<open>msg.value\<close> equal to the amount in the
  native coin; \<open>msg.value\<close> 0 and a \<open>transferFrom\<close> that does not revert for a token);
  \<open>approveWork\<close> succeeds exactly when its status and caller guards hold,
  \<open>amount * platformFee\<close> is below \<open>2 ^ 256\<close> and neither transfer reverts.
\<close>

theorem deadline_binds_only_submitWork:
  "(deadline (escrows s i) < block_timestamp e \<longrightarrow> isl (submitWork e s i h))
   \<and> (succeeds (submitWork e s i h) \<longleftrightarrow>
        validEscrow s i \<and> freelancer (escrows s i) = msg_sender e \<and> status (escrows s i) = Funded
        \<and> block_timestamp e \<le> deadline (escrows s i) \<and> h \<noteq> [])
   \<and> (succeeds (submitWork e s i h) \<longrightarrow>
        submitWork e s i h =
          Inr (s \<lparr> escrows := (escrows s)
                     (i := (escrows s i) \<lparr> deliveryHash := h, freelancerSubmitted := True,
                                           status := WorkSubmitted,
                                           lastUpdated := block_timestamp e \<rparr>) \<rparr>,
               [Emit (WorkSubmittedEv i h)]))
   \<and> (succeeds (fundEscrow e v s i r) \<longleftrightarrow>
        validEscrow s i \<and> client (escrows s i) = msg_sender e \<and> status (escrows s i) = Created
        \<and> (if token (escrows s i) = 0 then v = amount (escrows s i) else v = 0 \<and> r \<noteq> Reverted))
   \<and> (reachable s \<longrightarrow>
        (succeeds (approveWork e s i r1 r2) \<longleftrightarrow>
           status (escrows s i) = WorkSubmitted \<and> client (escrows s i) = msg_sender e
           \<and> unat (amount (escrows s i)) * unat (platformFee s) < 2 ^ 256
           \<and> r1 \<noteq> Reverted \<and> r2 \<noteq> Reverted))"
proof (intro conjI impI)
  assume "deadline (escrows s i) < block_timestamp e"
  then have "\<not> block_timestamp e \<le> deadline (escrows s i)" by simp
  then show "isl (submitWork e s i h)"
    by (simp add: submitWork_def Let_def)
next
  show "succeeds (submitWork e s i h) \<longleftrightarrow>
        validEscrow s i \<and> freelancer (escrows s i) = msg_sender e \<and> status (escrows s i) = Funded
        \<and> block_timestamp e \<le> deadline (escrows s i) \<and> h \<noteq> []"
    by (rule submitWork_succeeds_iff)
next
  assume "succeeds (submitWork e s i h)"
  then have "validEscrow s i \<and> freelancer (escrows s i) = msg_sender e \<and> status (escrows s i) = Funded
        \<and> block_timestamp e \<le> deadline (escrows s i) \<and> h \<noteq> []"
    by (simp add: submitWork_succeeds_iff)
  then show "submitWork e s i h =
          Inr (s \<lparr> escrows := (escrows s)
                     (i := (escrows s i) \<lparr> deliveryHash := h, freelancerSubmitted := True,
                                           status := WorkSubmitted,
                                           lastUpdated := block_timestamp e \<rparr>) \<rparr>,
               [Emit (WorkSubmittedEv i h)])"
    by (simp add: submitWork_def onlyFreelancer_def Let_def)
next
  show "succeeds (fundEscrow e v s i r) \<longleftrightarrow>
        validEscrow s i \<and> client (escrows s i) = msg_sender e \<and> status (escrows s i) = Created
        \<and> (if token (escrows s i) = 0 then v = amount (escrows s i) else v = 0 \<and> r \<noteq> Reverted)"
    by (rule fundEscrow_succeeds_iff)
next
  assume "reachable s"
  then show "succeeds (approveWork e s i r1 r2) \<longleftrightarrow>
           status (escrows s i) = WorkSubmitted \<and> client (escrows s i) = msg_sender e
           \<and> unat (amount (escrows s i)) * unat (platformFee s) < 2 ^ 256
           \<and> r1 \<noteq> Reverted \<and> r2 \<noteq> Reverted"
    by (rule approveWork_succeeds_iff)
qed

text \<open>
  C6 at deadline 100: at time 200 submission is refused, while funding and approval go
  through.
\<close>

theorem deadline_binds_only_submitWork_witness:
  "deadline (escrows eth_funded 1) < block_timestamp (tx_env 2 200)
   \<and> isl (submitWork (tx_env 2 200) eth_funded 1 ''Qm'')
   \<and> succeeds (submitWork (tx_env 2 12) eth_funded 1 ''Qm'')
   \<and> deadline (escrows eth_created 1) < block_timestamp (tx_env 1 200)
   \<and> succeeds (fundEscrow (tx_env 1 200) 1000 eth_created 1 Reverted)
   \<and> reachable eth_submitted
   \<and> deadline (escrows eth_submitted 1) < block_timestamp (tx_env 1 200)
   \<and> succeeds (approveWork (tx_env 1 200) eth_submitted 1 (Returned True) (Returned True))"
proof -
  have late: "deadline (escrows eth_funded 1) < block_timestamp (tx_env 2 200)"
    "deadline (escrows eth_created 1) < block_timestamp (tx_env 1 200)"
    "deadline (escrows eth_submitted 1) < block_timestamp (tx_env 1 200)"
    using eth_funded_facts eth_created_facts eth_submitted_facts
    by (simp_all add: tx_env_def word_less_nat_alt)
  from deadline_binds_only_submitWork [of eth_funded 1 "tx_env 2 200" "''Qm''"] late
  have c1: "isl (submitWork (tx_env 2 200) eth_funded 1 ''Qm'')" by blast
  from deadline_binds_only_submitWork [of eth_funded 1 "tx_env 2 12" "''Qm''"]
  have c2: "succeeds (submitWork (tx_env 2 12) eth_funded 1 ''Qm'')"
    using eth_funded_facts by (simp add: tx_env_def validEscrow_def word_less_nat_alt word_le_nat_alt)
  from deadline_binds_only_submitWork [of eth_created 1 "tx_env 1 200" _ 1000 Reverted]
  have c3: "succeeds (fundEscrow (tx_env 1 200) 1000 eth_created 1 Reverted)"
    using eth_created_facts by (simp add: tx_env_def validEscrow_def word_less_nat_alt)
  from deadline_binds_only_submitWork [of eth_submitted 1 "tx_env 1 200" _ _ _ "Returned True" "Returned True"]
    reachable_scenarios(3)
  have c4: "succeeds (approveWork (tx_env 1 200) eth_submitted 1 (Returned True) (Returned True))"
    using eth_submitted_facts by (simp add: tx_env_def)
  from late c1 c2 c3 c4 reachable_scenarios(3) show ?thesis by simp
qed


subsection \<open>C7: creating an escrow\<close>

text \<open>
  C7: as long as the id counter has not reached the largest \<open>uint256\<close> value,
  \<open>createEscrow\<close> succeeds if and only if the freelancer is not the zero address, the
  amount is positive, the deadline is strictly after the current time, and the mediator is
  approved or is the owner. On success the new escrow gets the current value of the counter
  as its id, the counter becomes that id plus one (without wrapping around), the escrow's
  status is \<open>Created\<close>, no other escrow changes, and the only effect is the event: no
  funds move. No transaction ever lowers the counter, and only \<open>createEscrow\<close> changes it.
\<close>

theorem createEscrow_sequential_ids:
  assumes "nextEscrowId s \<noteq> max_uint256"
  shows "(succeeds (createEscrow e s f m a t d w) \<longleftrightarrow>
            f \<noteq> 0 \<and> 0 < a \<and> block_timestamp e < d \<and> (approvedMediators s m \<or> m = owner s))
    \<and> (createEscrow e s f m a t d w = Inr (i, s', fx) \<longrightarrow>
          i = nextEscrowId s \<and> nextEscrowId s' = i + 1 \<and> unat (nextEscrowId s') = unat i + 1
          \<and> status (escrows s' i) = Created
          \<and> (\<forall>j. j \<noteq> i \<longrightarrow> escrows s' j = escrows s j)
          \<and> fx = [Emit (EscrowCreated i (msg_sender e) f a t)])
    \<and> (exec e s c = Inr (s'', fx') \<longrightarrow>
          nextEscrowId s \<le> nextEscrowId s''
          \<and> ((\<forall>f m a t d w. c \<noteq> CreateEscrow f m a t d w) \<longrightarrow> nextEscrowId s'' = nextEscrowId s))"
proof -
  from assms have room: "unat (nextEscrowId s) + unat (1::uint256) < 2 ^ 256"
    by (rule counter_has_room)
  then have add: "checked_add (nextEscrowId s) 1 = Inr (nextEscrowId s + 1)"
    by (simp add: checked_add_def)
  have iff: "succeeds (createEscrow e s f m a t d w) \<longleftrightarrow>
            f \<noteq> 0 \<and> 0 < a \<and> block_timestamp e < d \<and> (approvedMediators s m \<or> m = owner s)"
    using add by (simp add: createEscrow_def Let_def)
  have res: "createEscrow e s f m a t d w = Inr (i, s', fx) \<longrightarrow>
          i = nextEscrowId s \<and> nextEscrowId s' = i + 1 \<and> unat (nextEscrowId s') = unat i + 1
          \<and> status (escrows s' i) = Created
          \<and> (\<forall>j. j \<noteq> i \<longrightarrow> escrows s' j = escrows s j)
          \<and> fx = [Emit (EscrowCreated i (msg_sender e) f a t)]"
    using add room
    by (auto simp: createEscrow_def Let_def unat_add_lem [THEN iffD1] split: if_splits)
  have mono: "exec e s c = Inr (s'', fx') \<longrightarrow>
          nextEscrowId s \<le> nextEscrowId s''
          \<and> ((\<forall>f m a t d w. c \<noteq> CreateEscrow f m a t d w) \<longrightarrow> nextEscrowId s'' = nextEscrowId s)"
    by (auto dest: exec_counter_mono exec_counter_fixed)
  from iff res mono show ?thesis by blast
qed

text \<open>
  C7 after the first escrow: the next one gets id 2; a mediator that is neither approved
  nor the owner, and an amount of 0, are refused.
\<close>

theorem createEscrow_sequential_ids_witness:
  "nextEscrowId eth_created \<noteq> max_uint256
   \<and> succeeds (createEscrow (tx_env 3 20) eth_created 4 9 5 0 100 ''next'')
   \<and> fst (projr (createEscrow (tx_env 3 20) eth_created 4 9 5 0 100 ''next'')) = 2
   \<and> \<not> succeeds (createEscrow (tx_env 3 20) eth_created 4 8 5 0 100 ''next'')
   \<and> \<not> succeeds (createEscrow (tx_env 3 20) eth_created 4 9 0 0 100 ''next'')"
proof -
  let ?c = "createEscrow (tx_env 3 20) eth_created 4 9 5 0 100 ''next''"
  have h: "nextEscrowId eth_created \<noteq> max_uint256"
    using eth_created_facts by (simp add: max_uint256_def)
  have med: "\<not> approvedMediators eth_created 8" "owner eth_created = 9"
    by (simp_all add: eth_created_def run_defs entry_defs modifier_defs)
  from createEscrow_sequential_ids [OF h, where e = "tx_env 3 20" and f = 4 and m = 9 and a = 5
      and t = 0 and d = 100 and w = "''next''"] med
  have ok: "succeeds ?c"
    by (simp add: tx_env_def word_less_nat_alt)
  then have eq: "?c = Inr (fst (projr ?c), fst (snd (projr ?c)), snd (snd (projr ?c)))"
    using succeeds_Inr by fastforce
  from createEscrow_sequential_ids [OF h, where e = "tx_env 3 20" and f = 4 and m = 9 and a = 5
      and t = 0 and d = 100 and w = "''next''" and i = "fst (projr ?c)"
      and s' = "fst (snd (projr ?c))" and fx = "snd (snd (projr ?c))"] eq
  have id: "fst (projr ?c) = 2"
    using eth_created_facts by simp
  from createEscrow_sequential_ids [OF h, where e = "tx_env 3 20" and f = 4 and m = 8 and a = 5
      and t = 0 and d = 100 and w = "''next''"] med
  have no_med: "\<not> succeeds (createEscrow (tx_env 3 20) eth_created 4 8 5 0 100 ''next'')"
    by simp
  from createEscrow_sequential_ids [OF h, where e = "tx_env 3 20" and f = 4 and m = 9 and a = 0
      and t = 0 and d = 100 and w = "''next''"]
  have no_amt: "\<not> succeeds (createEscrow (tx_env 3 20) eth_created 4 9 0 0 100 ''next'')"
    by simp
  from h ok id no_med no_amt show ?thesis by simp
qed

subsection \<open>C8: the fee cap\<close>

text \<open>
  C8: \<open>setPlatformFee\<close> fails for every caller but the owner and for every rate above
  1000; a transaction that changes the rate is a \<open>setPlatformFee\<close> by the owner with a
  rate of at most 1000; so in every reachable storage the rate is at most 1000, and the fee
  a successful \<open>approveWork\<close> transfers is at most a tenth of the escrow's amount.
\<close>

theorem platformFee_cap:
  "(msg_sender e \<noteq> owner s \<longrightarrow> isl (setPlatformFee e s f))
   \<and> (1000 < f \<longrightarrow> isl (setPlatformFee e s f))
   \<and> (exec e s c = Inr (s', fx) \<and> platformFee s' \<noteq> platformFee s \<longrightarrow>
        c = SetPlatformFee (platformFee s') \<and> msg_sender e = owner s \<and> platformFee s' \<le> 1000)
   \<and> (reachable s \<longrightarrow> platformFee s \<le> 1000)
   \<and> (reachable s \<and> approveWork e s i r1 r2 = Inr (s', fx) \<longrightarrow>
        fx = [transfer_of (token (escrows s i)) (freelancer (escrows s i))
                (amount (escrows s i) - amount (escrows s i) * platformFee s div 10000),
              transfer_of (token (escrows s i)) (feeRecipient s)
                (amount (escrows s i) * platformFee s div 10000),
              Emit (EscrowCompleted i
                (amount (escrows s i) - amount (escrows s i) * platformFee s div 10000)
                (amount (escrows s i) * platformFee s div 10000)),
              Emit (WorkApproved i)]
        \<and> 10 * unat (amount (escrows s i) * platformFee s div 10000) \<le> unat (amount (escrows s i)))"
proof (intro conjI impI)
  assume "msg_sender e \<noteq> owner s"
  then show "isl (setPlatformFee e s f)"
    by (auto simp: setPlatformFee_def onlyOwner_def)
next
  assume "1000 < f"
  then have "\<not> f \<le> 1000" by simp
  then show "isl (setPlatformFee e s f)"
    by (simp add: setPlatformFee_def)
next
  assume "exec e s c = Inr (s', fx) \<and> platformFee s' \<noteq> platformFee s"
  then show "c = SetPlatformFee (platformFee s')" "msg_sender e = owner s" "platformFee s' \<le> 1000"
    by (auto dest: exec_changes_fee)
next
  assume "reachable s"
  then show "platformFee s \<le> 1000"
    using reachable_invariants by (auto simp: fee_capped_def)
next
  assume h: "reachable s \<and> approveWork e s i r1 r2 = Inr (s', fx)"
  then have run: "approveWork e s i r1 r2 = Inr (s', fx)" by simp
  from approveWork_effects [OF run] show "fx = [transfer_of (token (escrows s i)) (freelancer (escrows s i))
                (amount (escrows s i) - amount (escrows s i) * platformFee s div 10000),
              transfer_of (token (escrows s i)) (feeRecipient s)
                (amount (escrows s i) * platformFee s div 10000),
              Emit (EscrowCompleted i
                (amount (escrows s i) - amount (escrows s i) * platformFee s div 10000)
                (amount (escrows s i) * platformFee s div 10000)),
              Emit (WorkApproved i)]"
    by simp
  from approveWork_effects [OF run]
  have fits: "unat (amount (escrows s i)) * unat (platformFee s) < 2 ^ 256"
    by simp
  from h have cap: "unat (platformFee s) \<le> 1000"
    using reachable_invariants by (auto simp: fee_capped_def word_le_nat_alt)
  from fits have "unat (amount (escrows s i) * platformFee s div 10000)
      = unat (amount (escrows s i)) * unat (platformFee s) div 10000"
    by (simp add: unat_div unat_mult_lem [THEN iffD1])
  then show "10 * unat (amount (escrows s i) * platformFee s div 10000) \<le> unat (amount (escrows s i))"
    using fee_at_most_tenth [OF cap] by simp
qed


text \<open>
  C8 in the storage with the submitted escrow of 1000: a stranger cannot set the rate, the
  owner cannot set 1001 but can set 1000, and the fee on release is at most 100.
\<close>

theorem platformFee_cap_witness:
  "msg_sender (tx_env 1 20) \<noteq> owner eth_submitted
   \<and> isl (setPlatformFee (tx_env 1 20) eth_submitted 300)
   \<and> (1000 :: uint256) < 1001
   \<and> isl (setPlatformFee (tx_env 9 20) eth_submitted 1001)
   \<and> succeeds (setPlatformFee (tx_env 9 20) eth_submitted 1000)
   \<and> reachable eth_submitted
   \<and> platformFee eth_submitted \<le> 1000
   \<and> 10 * unat (amount (escrows eth_submitted 1) * platformFee eth_submitted div 10000)
       \<le> unat (amount (escrows eth_submitted 1))"
proof -
  let ?run = "approveWork (tx_env 1 14) eth_submitted 1 (Returned True) (Returned True)"
  have own: "owner eth_submitted = 9"
    by (simp add: eth_submitted_def eth_funded_def eth_created_def run_defs entry_defs modifier_defs)
  then have h1: "msg_sender (tx_env 1 20) \<noteq> owner eth_submitted"
    by (simp add: tx_env_def)
  have h2: "(1000 :: uint256) < 1001"
    by (simp add: word_less_nat_alt)
  have ok: "succeeds (setPlatformFee (tx_env 9 20) eth_submitted 1000)"
    using own by (simp add: setPlatformFee_def onlyOwner_def tx_env_def)
  have r: "reachable eth_submitted"
    by (rule reachable_scenarios)
  have run: "?run = Inr (fst (projr ?run), snd (projr ?run))"
    using eth_submitted_facts
    by (simp add: approveWork_def modifier_defs run_defs word_less_nat_alt)
  from platformFee_cap [where e = "tx_env 1 20" and s = eth_submitted and f = 300] h1
  have c1: "isl (setPlatformFee (tx_env 1 20) eth_submitted 300)" by blast
  from platformFee_cap [where e = "tx_env 9 20" and s = eth_submitted and f = 1001] h2
  have c2: "isl (setPlatformFee (tx_env 9 20) eth_submitted 1001)" by blast
  from platformFee_cap [where e = "tx_env 1 14" and s = eth_submitted and i = 1
      and ?r1.0 = "Returned True" and ?r2.0 = "Returned True"
      and s' = "fst (projr ?run)" and fx = "snd (projr ?run)"] r run
  have c3: "platformFee eth_submitted \<le> 1000"
    and c4: "10 * unat (amount (escrows eth_submitted 1) * platformFee eth_submitted div 10000)
       \<le> unat (amount (escrows eth_submitted 1))"
    by blast+
  from h1 h2 ok r c1 c2 c3 c4 show ?thesis by simp
qed

subsection \<open>C10: escrow 0\<close>

text \<open>
  C10: in every reachable storage escrow id 0 passes \<open>validEscrow\<close>, its record is the
  zero record, and for every caller other than the zero address each of the six entry
  points fails on id 0 at its caller guard; no transaction of such a caller changes the
  record of escrow 0.
\<close>

theorem phantom_escrow_inert:
  assumes "reachable s" and "msg_sender e \<noteq> 0"
  shows "validEscrow s 0 \<and> escrows s 0 = zero_escrow
    \<and> fundEscrow e v s 0 r = Inl (Require ''Only client can call this'')
    \<and> submitWork e s 0 h = Inl (Require ''Only freelancer can call this'')
    \<and> approveWork e s 0 r1 r2 = Inl (Require ''Only client can call this'')
    \<and> raiseDispute e s 0 = Inl (Require ''Only client or freelancer can call this'')
    \<and> resolveDispute e s 0 a b r1 r2 = Inl (Require ''Only assigned mediator can call this'')
    \<and> cancelEscrow e s 0 = Inl (Require ''Only client can call this'')
    \<and> (\<forall>c s' fx. exec e s c = Inr (s', fx) \<longrightarrow> escrows s' 0 = zero_escrow)"
proof -
  from assms(1) have inv: "fresh_ids s" "phantom_untouched s"
    using reachable_invariants by simp_all
  then have zero: "escrows s 0 = zero_escrow"
    by (simp add: phantom_untouched_def)
  from inv have "1 \<le> nextEscrowId s" by (simp add: fresh_ids_def)
  then have valid: "validEscrow s 0"
    by (simp add: validEscrow_def word_less_nat_alt word_le_nat_alt)
  from assms(2) have ne: "0 \<noteq> msg_sender e" by simp
  have "\<forall>c s' fx. exec e s c = Inr (s', fx) \<longrightarrow> escrows s' 0 = zero_escrow"
    using exec_phantom_untouched [OF inv(2) inv(1) assms(2)]
    by (simp add: phantom_untouched_def)
  with valid zero ne assms(2) show ?thesis
    by (simp add: entry_defs modifier_defs zero_escrow_def Let_def)
qed

text \<open>
  C10 after an escrow has been created and funded: escrow 0 is still untouched and
  refuses client 1.
\<close>

theorem phantom_escrow_inert_witness:
  "reachable eth_funded \<and> msg_sender (tx_env 1 20) \<noteq> 0
   \<and> validEscrow eth_funded 0
   \<and> client (escrows eth_funded 0) = 0
   \<and> fundEscrow (tx_env 1 20) 0 eth_funded 0 (Returned True) = Inl (Require ''Only client can call this'')
   \<and> cancelEscrow (tx_env 1 20) eth_funded 0 = Inl (Require ''Only client can call this'')"
proof -
  have r: "reachable eth_funded" by (rule reachable_scenarios)
  have n: "msg_sender (tx_env 1 20) \<noteq> 0" by (simp add: tx_env_def)
  from phantom_escrow_inert [OF r n, of 0 "Returned True"] r n show ?thesis
    by (simp add: zero_escrow_def)
qed

section \<open>Claims about the pool contract\<close>

subsection \<open>C9: eviction after two failed payments\<close>

lemmas pool_run_defs = pool_replay_def pool_apply_call_def createPool_def joinPool_def
  collectPayments_def leavePool_def pool_constructor_def validPool_def poolActive_def
  checked_add_def checked_sub_def checked_mul_def checked_div_def thirty_days_def
  MAX_FAILED_PAYMENTS_def zero_pool_def zero_member_def checkAndProcessPayout_def
  processPayout_def tryCollectPayment_def collectFromMember_def removeMember_def
  collect_body_def collect_loop.simps removeFromList.simps never_pays_def second_fails_def
  tx_env_def Let_def word_le_nat_alt word_less_nat_alt

lemma coin_pool_after_tick_facts:
  "nextPoolId coin_pool_after_tick = 2
   \<and> pool_status (pools coin_pool_after_tick 1) = Active
   \<and> pool_token (pools coin_pool_after_tick 1) = 0
   \<and> nextPaymentDue (pools coin_pool_after_tick 1) = 5185000
   \<and> memberList (pools coin_pool_after_tick 1) = [20]
   \<and> currentMembers (pools coin_pool_after_tick 1) = 1
   \<and> isActive (members (pools coin_pool_after_tick 1) 20)
   \<and> failedPaymentCount (members (pools coin_pool_after_tick 1) 20) = 1"
  unfolding coin_pool_after_tick_def
  by (simp add: pool_run_defs)

text \<open>
  C9 says that a member whose payment fails in \<open>collectPayments\<close> for the second time is
  removed by the routine \<open>leavePool\<close> uses. The loop of \<open>collectPayments\<close> decrements its
  index after a removal (\<open>i--\<close>, "adjust index since memberList changed"); at index 0
  the decrement underflows and the transaction panics. So the member at the head of the
  list is never removed: the second failed collection rolls the whole call back, with the
  failure count and the member list as they were. The code evaluated on the pool with the
  single member 20:
\<close>

theorem collectPayments_eviction_panics:
  "memberList (pools coin_pool_after_tick 1) = [20]
   \<and> isActive (members (pools coin_pool_after_tick 1) 20)
   \<and> failedPaymentCount (members (pools coin_pool_after_tick 1) 20) = 1
   \<and> nextPaymentDue (pools coin_pool_after_tick 1) \<le> block_timestamp (tx_env 30 5185000)
   \<and> collectPayments (tx_env 30 5185000) coin_pool_after_tick 1 never_pays Reverted Reverted
       = Inl Panic
   \<and> pool_apply_call coin_pool_after_tick
        (tx_env 30 5185000, CollectPayments 1 never_pays Reverted Reverted) = coin_pool_after_tick"
  unfolding coin_pool_after_tick_def
  by (simp add: pool_run_defs)

text \<open>
  In the run with two members the removal goes through as C9 describes it: member 30,
  at index 1 of the list, is marked inactive, taken off the list and uncounted, and the
  event carries a reason of its own, different from the one \<open>leavePool\<close> gives there.
\<close>

lemma token_pool_after_tick_facts:
  "memberList (pools token_pool_after_tick 1) = [20, 30]
   \<and> currentMembers (pools token_pool_after_tick 1) = 2
   \<and> isActive (members (pools token_pool_after_tick 1) 30)
   \<and> failedPaymentCount (members (pools token_pool_after_tick 1) 30) = 1
   \<and> failedPaymentCount (members (pools token_pool_after_tick 1) 20) = 0"
  unfolding token_pool_after_tick_def
  by (simp add: pool_run_defs)

lemma collectPayments_evicts_later_member:
  "snd (projr (collectPayments (tx_env 40 5185000) token_pool_after_tick 1 second_fails
         (Returned True) (Returned True)))
     = [TokenTransferFrom 5 20 100, Emit (PaymentCollected 1 20 100), Emit (PaymentFailed 1 30),
        Emit (MemberRemoved 1 30 ''Too many failed payments''), Emit (MemberLeft 1 30),
        TokenTransfer 5 10 98, TokenTransfer 5 7 2, Emit (PayoutCompleted 1 98 2)]
   \<and> memberList (pools (pool_apply_call token_pool_after_tick
        (tx_env 40 5185000, CollectPayments 1 second_fails (Returned True) (Returned True))) 1) = [20]
   \<and> currentMembers (pools (pool_apply_call token_pool_after_tick
        (tx_env 40 5185000, CollectPayments 1 second_fails (Returned True) (Returned True))) 1) = 1
   \<and> \<not> isActive (members (pools (pool_apply_call token_pool_after_tick
        (tx_env 40 5185000, CollectPayments 1 second_fails (Returned True) (Returned True))) 1) 30)"
  unfolding token_pool_after_tick_def
  by (simp add: pool_run_defs)

lemma leavePool_removes:
  "snd (projr (leavePool (tx_env 30 4000) token_pool_after_tick 1))
     = [Emit (MemberRemoved 1 30 ''Member left voluntarily''), Emit (MemberLeft 1 30)]"
  unfolding token_pool_after_tick_def
  by (simp add: pool_run_defs)

end
